theory Spec2Isabelle
  imports Complex_Main "HOL-Library.AList"
begin

section \<open>Data model (types.ts)\<close>

text \<open>
  JavaScript numbers that a form or the database can fill with any value (money, and the
  minSelect and maxSelect bounds that the vendor form stores as typed) are modelled as
  exact reals; rounding, NaN and the infinities of IEEE doubles are outside the model.
  Quantities and timestamps are integers; identifiers and names are strings. An
  optional field (\<^verbatim>\<open>tax_rate?: number\<close>) is an \<open>option\<close>.
\<close>

record ModifierOption =
  opt_id :: string
  opt_name :: string
  additionalPrice :: real

record ModifierGroup =
  grp_id :: string
  grp_name :: string
  minSelect :: real
  maxSelect :: real
  grp_options :: "ModifierOption list"

record MenuItem =
  item_id :: string
  item_name :: string
  basePrice :: real
  modifierGroups :: "ModifierGroup list"

record SelectedGroup =
  groupId :: string
  groupName :: string
  sel_options :: "ModifierOption list"

record SelectedItem =
  itemId :: string
  sel_name :: string
  sel_basePrice :: real
  selectedModifiers :: "SelectedGroup list"

datatype DropApprovalStatus = PENDING | APPROVED | REJECTED

record Drop =
  drop_id :: string
  drop_name :: string
  drop_image :: string
  start_date :: int
  end_date :: int
  price :: real
  tax_rate :: "real option"
  total_quantity :: int
  quantity_remaining :: int
  approval_status :: DropApprovalStatus
  menu_items :: "MenuItem list"
  delivery_fee :: real

text \<open>
  The selection state of the detail view,
  \<^verbatim>\<open>Record<string, Record<string, ModifierOption[]>>\<close>: an object is an association
  list in insertion order; reading a key is \<open>map_of\<close>, writing one is
  \<open>AList.update\<close> (in place when the key exists, appended otherwise), and
  \<^verbatim>\<open>Object.values\<close> is \<open>map snd\<close>.
\<close>

type_synonym group_selections = "(string \<times> ModifierOption list) list"
type_synonym selections = "(string \<times> group_selections) list"

section \<open>Pricing Engine (views/DropDetail.tsx)\<close>

text \<open>
  The price computation of the detail view, lines 73 to 92 of views/DropDetail.tsx:
  \<^verbatim>\<open>unitPrice\<close>, \<^verbatim>\<open>calculatedSubtotal\<close>, \<^verbatim>\<open>deliveryFee\<close>, \<^verbatim>\<open>bookingFee\<close>, \<^verbatim>\<open>taxRate\<close>,
  \<^verbatim>\<open>taxAmount\<close> and \<^verbatim>\<open>orderTotal\<close>. Values the component reads from its props and state
  are arguments here.
\<close>

text \<open>\<^verbatim>\<open>selections[item.id] || {}\<close>\<close>

definition item_sels :: "selections \<Rightarrow> string \<Rightarrow> group_selections" where
  "item_sels sels iid = (case map_of sels iid of None \<Rightarrow> [] | Some g \<Rightarrow> g)"

text \<open>\<^verbatim>\<open>selections[item.id]?.[group.id] || []\<close>\<close>

definition group_sels :: "selections \<Rightarrow> string \<Rightarrow> string \<Rightarrow> ModifierOption list" where
  "group_sels sels iid gid =
     (case map_of sels iid of
        None \<Rightarrow> []
      | Some g \<Rightarrow> (case map_of g gid of None \<Rightarrow> [] | Some os \<Rightarrow> os))"

text \<open>
  The body of the \<^verbatim>\<open>forEach\<close> over the menu items: \<^verbatim>\<open>itemTotal\<close> starts at the base
  price and every option of every group selected for the item is added to it.
\<close>

definition itemTotal :: "selections \<Rightarrow> MenuItem \<Rightarrow> real" where
  "itemTotal sels item =
     fold (\<lambda>opts t. fold (\<lambda>o' t'. t' + additionalPrice o') opts t)
          (map snd (item_sels sels (item_id item))) (basePrice item)"

definition unitPrice :: "Drop \<Rightarrow> selections \<Rightarrow> real" where
  "unitPrice d sels =
     (let total = fold (\<lambda>item total. total + itemTotal sels item) (menu_items d) 0
      in if length (menu_items d) = 0 then price d else total)"

definition calculatedSubtotal :: "Drop \<Rightarrow> selections \<Rightarrow> int \<Rightarrow> real" where
  "calculatedSubtotal d sels qty = unitPrice d sels * real_of_int qty"

text \<open>\<^verbatim>\<open>x || 0\<close> on a number: zero is the only falsy real.\<close>

definition or_zero :: "real \<Rightarrow> real" where
  "or_zero x = (if x = 0 then 0 else x)"

definition deliveryFee :: "Drop \<Rightarrow> bool \<Rightarrow> real" where
  "deliveryFee d deliveryRequested =
     (if deliveryRequested then or_zero (delivery_fee d) else 0)"

definition bookingFee :: "real \<Rightarrow> int \<Rightarrow> real" where
  "bookingFee bookingFeePerPackage qty = bookingFeePerPackage * real_of_int qty"

text \<open>\<^verbatim>\<open>Number(drop.tax_rate || 0)\<close>\<close>

definition taxRate :: "Drop \<Rightarrow> real" where
  "taxRate d = (case tax_rate d of None \<Rightarrow> 0 | Some r \<Rightarrow> or_zero r)"

definition taxAmount :: "Drop \<Rightarrow> selections \<Rightarrow> int \<Rightarrow> bool \<Rightarrow> real \<Rightarrow> real" where
  "taxAmount d sels qty deliveryRequested fee =
     (calculatedSubtotal d sels qty + deliveryFee d deliveryRequested
        + bookingFee fee qty) * taxRate d"

definition orderTotal :: "Drop \<Rightarrow> selections \<Rightarrow> int \<Rightarrow> bool \<Rightarrow> real \<Rightarrow> real" where
  "orderTotal d sels qty deliveryRequested fee =
     calculatedSubtotal d sels qty + deliveryFee d deliveryRequested
       + bookingFee fee qty + taxAmount d sels qty deliveryRequested fee"

subsection \<open>The pricing contract in the words of the specification\<close>

text \<open>
  Section 4.1, read on the selection mapping itself and not through the lookups of the
  code: the surcharges selected for an item are those of every option that the mapping
  holds under the item's id, in whatever group; the unit price is the sum over all menu
  items of the base price plus these surcharges, and the drop's flat price when there are
  no menu items. The other components follow the formulas of the section.
\<close>

definition spec_item_surcharges :: "selections \<Rightarrow> MenuItem \<Rightarrow> real" where
  "spec_item_surcharges sels item =
     (\<Sum>(iid, groups)\<leftarrow>sels.
        if iid = item_id item
        then (\<Sum>(gid, opts)\<leftarrow>groups. \<Sum>o'\<leftarrow>opts. additionalPrice o')
        else 0)"

definition spec_unitPrice :: "Drop \<Rightarrow> selections \<Rightarrow> real" where
  "spec_unitPrice d sels =
     (if menu_items d = [] then price d
      else (\<Sum>item\<leftarrow>menu_items d. basePrice item + spec_item_surcharges sels item))"

definition spec_taxable :: "Drop \<Rightarrow> selections \<Rightarrow> int \<Rightarrow> bool \<Rightarrow> real \<Rightarrow> real" where
  "spec_taxable d sels q delivery fee =
     spec_unitPrice d sels * real_of_int q + (if delivery then delivery_fee d else 0)
       + fee * real_of_int q"

definition spec_total_displayed :: "Drop \<Rightarrow> selections \<Rightarrow> int \<Rightarrow> bool \<Rightarrow> real \<Rightarrow> real" where
  "spec_total_displayed d sels q delivery fee =
     spec_taxable d sels q delivery fee
       + spec_taxable d sels q delivery fee * (case tax_rate d of None \<Rightarrow> 0 | Some r \<Rightarrow> r)"

text \<open>
  The same surcharges counted group by group over the modifier groups of the item, as
  the submitted order lists them.
\<close>

definition spec_item_surcharges_by_group :: "selections \<Rightarrow> MenuItem \<Rightarrow> real" where
  "spec_item_surcharges_by_group sels item =
     (\<Sum>g\<leftarrow>modifierGroups item.
        \<Sum>o'\<leftarrow>group_sels sels (item_id item) (grp_id g). additionalPrice o')"

text \<open>
  An object holds each key once. The selection state is such an object whose values are
  such objects.
\<close>

definition js_object :: "('k \<times> 'v) list \<Rightarrow> bool" where
  "js_object kvs \<longleftrightarrow> distinct (map fst kvs)"

definition selection_object :: "selections \<Rightarrow> bool" where
  "selection_object sels \<longleftrightarrow> js_object sels \<and> list_all (\<lambda>(iid, groups). js_object groups) sels"

text \<open>
  The selection state fits an item when every group key stored under the item's id is
  the id of one of the item's modifier groups, and these ids are distinct.
\<close>

definition fits_item :: "selections \<Rightarrow> MenuItem \<Rightarrow> bool" where
  "fits_item sels item \<longleftrightarrow>
     distinct (map grp_id (modifierGroups item))
     \<and> set (map fst (item_sels sels (item_id item))) \<subseteq> set (map grp_id (modifierGroups item))"

section \<open>Reservation entrypoint: the total of savePurchase (services/api.ts)\<close>

text \<open>
  savePurchase is the function at lines 255 to 308 of src/unnamed/part_005 (the API
  module that App.tsx imports as services/api).
\<close>

record payload =
  p_userId :: "string option"
  p_quantity :: int
  p_customerName :: string
  p_customerEmail :: string
  p_deliveryRequested :: bool
  p_selectedItems :: "SelectedItem list option"
  p_deliveryAddress :: "string option"
  p_orderNotes :: "string option"
  p_isBulk :: "bool option"

text \<open>
  The total that savePurchase computes and passes to the stored procedure as
  \<^verbatim>\<open>p_total_paid\<close>: flat price times quantity, the delivery fee when requested, and the
  surcharges of all submitted options times the quantity.
\<close>

definition modifiersCost :: "SelectedItem list \<Rightarrow> real" where
  "modifiersCost items =
     fold (\<lambda>item c.
             fold (\<lambda>g c'. fold (\<lambda>opt c''. c'' + additionalPrice opt) (sel_options g) c')
                  (selectedModifiers item) c)
          items 0"

definition savePurchase_total :: "Drop \<Rightarrow> payload \<Rightarrow> real" where
  "savePurchase_total d pl =
     (let total = price d * real_of_int (p_quantity pl);
          total = (if p_deliveryRequested pl then total + or_zero (delivery_fee d)
                   else total)
      in case p_selectedItems pl of
           None \<Rightarrow> total
         | Some items \<Rightarrow> total + modifiersCost items * real_of_int (p_quantity pl))"

text \<open>
  handleConfirmCheckout: the selections submitted with an order, one entry per menu item
  and one group entry per modifier group of the item.
\<close>

definition finalSelections :: "Drop \<Rightarrow> selections \<Rightarrow> SelectedItem list" where
  "finalSelections d sels =
     map (\<lambda>item. \<lparr> itemId = item_id item, sel_name = item_name item,
                    sel_basePrice = basePrice item,
                    selectedModifiers =
                      map (\<lambda>g. \<lparr> groupId = grp_id g, groupName = grp_name g,
                                  sel_options = group_sels sels (item_id item) (grp_id g) \<rparr>)
                          (modifierGroups item) \<rparr>)
         (menu_items d)"

section \<open>Modifier selection (views/DropDetail.tsx)\<close>

text \<open>
  toggleOption (lines 45 to 71), the state update passed to \<^verbatim>\<open>setSelections\<close>: a
  selected option is
  removed; otherwise a single-select group takes the option as its only pick, a group
  below its cap gets the option appended, and a full group stays as it is.
\<close>

definition newGroupSels ::
  "ModifierOption \<Rightarrow> real \<Rightarrow> ModifierOption list \<Rightarrow> ModifierOption list" where
  "newGroupSels option maxSel groupSels =
     (if find (\<lambda>o'. opt_id o' = opt_id option) groupSels \<noteq> None
      then filter (\<lambda>o'. opt_id o' \<noteq> opt_id option) groupSels
      else if maxSel = 1 then [option]
      else if real (length groupSels) < maxSel then groupSels @ [option]
      else groupSels)"

definition toggleOption ::
  "string \<Rightarrow> string \<Rightarrow> ModifierOption \<Rightarrow> real \<Rightarrow> selections \<Rightarrow> selections" where
  "toggleOption iid gid option maxSel prev =
     (let itemSels = item_sels prev iid;
          groupSels = (case map_of itemSels gid of None \<Rightarrow> [] | Some os \<Rightarrow> os)
      in AList.update iid (AList.update gid (newGroupSels option maxSel groupSels) itemSels)
           prev)"

text \<open>
  A click on an option button of the menu:
  \<^verbatim>\<open>toggleOption(item.id, group.id, opt, group.maxSelect)\<close>.
\<close>

record click =
  c_item :: string
  c_group :: string
  c_option :: ModifierOption
  c_max :: real

definition apply_clicks :: "click list \<Rightarrow> selections \<Rightarrow> selections" where
  "apply_clicks cs sels =
     fold (\<lambda>c. toggleOption (c_item c) (c_group c) (c_option c) (c_max c)) cs sels"

text \<open>
  Number-to-string conversion inside a template literal. A whole number is written in
  decimal. The digits that the language prints for a number with a fractional part are
  outside the model: they are the parameter \<open>fmt\<close>.
\<close>

fun show_nat :: "nat \<Rightarrow> string" where
  "show_nat n =
     (if n < 10 then [''0123456789'' ! n]
      else show_nat (n div 10) @ [''0123456789'' ! (n mod 10)])"

definition show_int :: "int \<Rightarrow> string" where
  "show_int i = (if i < 0 then ''-'' @ show_nat (nat (- i)) else show_nat (nat i))"

definition number_to_string :: "(real \<Rightarrow> string) \<Rightarrow> real \<Rightarrow> string" where
  "number_to_string fmt x = (if x = real_of_int \<lfloor>x\<rfloor> then show_int \<lfloor>x\<rfloor> else fmt x)"

definition dquote :: string where
  "dquote = [CHR 0x22]"

definition min_select_message :: "(real \<Rightarrow> string) \<Rightarrow> ModifierGroup \<Rightarrow> MenuItem \<Rightarrow> string" where
  "min_select_message fmt g item =
     ''Please select at least '' @ number_to_string fmt (minSelect g)
       @ '' option(s) for '' @ dquote @ grp_name g @ dquote @ '' in '' @ dquote
       @ item_name item @ dquote @ ''.''"

definition violates_min :: "selections \<Rightarrow> MenuItem \<Rightarrow> ModifierGroup \<Rightarrow> bool" where
  "violates_min sels item g \<longleftrightarrow>
     minSelect g > 0 \<and> real (length (group_sels sels (item_id item) (grp_id g))) < minSelect g"

text \<open>
  validateSelections (lines 94 to 105): the two nested loops with their early return.
  The result is
  \<open>None\<close> when the function returns true, and \<open>Some msg\<close> when it shows the alert
  \<open>msg\<close> and returns false.
\<close>

fun validate_groups ::
  "(real \<Rightarrow> string) \<Rightarrow> selections \<Rightarrow> MenuItem \<Rightarrow> ModifierGroup list \<Rightarrow> string option" where
  "validate_groups fmt sels item [] = None"
| "validate_groups fmt sels item (g # gs) =
     (if violates_min sels item g then Some (min_select_message fmt g item)
      else validate_groups fmt sels item gs)"

fun validate_items ::
  "(real \<Rightarrow> string) \<Rightarrow> selections \<Rightarrow> MenuItem list \<Rightarrow> string option" where
  "validate_items fmt sels [] = None"
| "validate_items fmt sels (item # items) =
     (case validate_groups fmt sels item (modifierGroups item) of
        Some msg \<Rightarrow> Some msg
      | None \<Rightarrow> validate_items fmt sels items)"

definition validateSelections :: "(real \<Rightarrow> string) \<Rightarrow> Drop \<Rightarrow> selections \<Rightarrow> string option" where
  "validateSelections fmt d sels = validate_items fmt sels (menu_items d)"

record User =
  user_id :: string
  user_name :: string
  user_email :: string

record ui_state =
  qty :: int
  qtyError :: "string option"
  isCheckoutOpen :: bool
  isQuickCheckoutLoading :: bool
  deliveryRequested :: bool
  ui_selections :: selections

text \<open>
  handlePurchaseClick (lines 107 to 130). What the handler does besides updating the view
  state is its list of effects: an alert, or the call
  \<^verbatim>\<open>handleConfirmCheckout(name, email, deliveryAddress)\<close> that submits the order.
\<close>

datatype ui_effect = Alert string | ConfirmCheckout string string "string option"

definition handlePurchaseClick ::
  "(real \<Rightarrow> string) \<Rightarrow> Drop \<Rightarrow> User option \<Rightarrow> ui_state \<Rightarrow> ui_state \<times> ui_effect list" where
  "handlePurchaseClick fmt d user s =
     (case validateSelections fmt d (ui_selections s) of
        Some msg \<Rightarrow> (s, [Alert msg])
      | None \<Rightarrow>
          if qty s < 1 then (s\<lparr>qtyError := Some ''Quantity must be at least 1.''\<rparr>, [])
          else if qty s > quantity_remaining d
          then (s\<lparr>qtyError :=
                    Some (''Only '' @ show_int (quantity_remaining d) @ '' left in stock.'')\<rparr>, [])
          else (case user of
                  Some u \<Rightarrow>
                    if \<not> deliveryRequested s
                    then (s\<lparr>qtyError := None, isQuickCheckoutLoading := True\<rparr>,
                          [ConfirmCheckout (user_name u) (user_email u) None])
                    else (s\<lparr>qtyError := None, isCheckoutOpen := True\<rparr>, [])
                | None \<Rightarrow> (s\<lparr>qtyError := None, isCheckoutOpen := True\<rparr>, [])))"

section \<open>Persisted orders and HTTP responses\<close>

datatype payment_status = Pending | Paid | Failed | Refunded

record Purchase =
  pur_id :: string
  pur_user_id :: "string option"
  customer_name :: string
  customer_email :: string
  pur_drop_id :: string
  pur_drop_name :: string
  pur_quantity :: int
  total_paid :: real
  payment_status :: payment_status
  stripe_checkout_session_id :: "string option"
  stripe_payment_intent_id :: "string option"
  paid_at :: "string option"
  delivery_requested :: bool
  delivery_address :: "string option"
  selected_items :: "SelectedItem list"
  order_notes :: "string option"
  is_bulk :: bool

text \<open>
  The purchases table is the list of its rows. An update with filters rewrites every row
  the filters select, and \<^verbatim>\<open>.eq('id', x).single()\<close> succeeds when exactly one row has
  the id.
\<close>

definition update_where ::
  "(Purchase \<Rightarrow> bool) \<Rightarrow> (Purchase \<Rightarrow> Purchase) \<Rightarrow> Purchase list \<Rightarrow> Purchase list" where
  "update_where sel upd rows = map (\<lambda>r. if sel r then upd r else r) rows"

definition select_single :: "string \<Rightarrow> Purchase list \<Rightarrow> Purchase option" where
  "select_single pid rows =
     (case filter (\<lambda>r. pur_id r = pid) rows of [r] \<Rightarrow> Some r | _ \<Rightarrow> None)"

text \<open>Truthiness of an optional string: absent and empty strings are falsy.\<close>

definition truthy :: "string option \<Rightarrow> bool" where
  "truthy x = (case x of None \<Rightarrow> False | Some v \<Rightarrow> v \<noteq> [])"

datatype resp_body =
    Plain string
  | ErrorJson string
  | ReceivedJson
  | SessionJson string string bool

record response =
  status :: nat
  body :: resp_body

definition jsonResponse :: "nat \<Rightarrow> resp_body \<Rightarrow> response" where
  "jsonResponse st b = \<lparr> status = st, body = b \<rparr>"

section \<open>Checkout Session Gateway (edge function create-checkout-session)\<close>

text \<open>
  The handler passed to \<^verbatim>\<open>Deno.serve\<close> at lines 479 to 614 of src/unnamed/part_005.
\<close>

text \<open>
  The payment provider is outside the repository. Its state is the list of checkout
  sessions it holds; \<^verbatim>\<open>sessions.retrieve\<close> finds a session by id and throws when there is
  none; \<^verbatim>\<open>sessions.create\<close> adds a session that is open, whose id and URL are the
  provider's choice (an input of the call) and which fails when the provider gives no
  answer.
\<close>

record stripe_session =
  ss_id :: string
  ss_status :: "string option"
  ss_url :: "string option"
  ss_unit_amount :: int
  ss_customer_email :: string
  ss_success_url :: string
  ss_purchase_id :: string
  ss_drop_id :: string

definition retrieve_session :: "stripe_session list \<Rightarrow> string \<Rightarrow> stripe_session option" where
  "retrieve_session st sid = find (\<lambda>x. ss_id x = sid) st"

record gateway_env =
  g_supabaseUrl :: "string option"
  g_serviceRoleKey :: "string option"
  g_stripeSecretKey :: "string option"
  g_siteUrl :: "string option"

record gateway_body =
  b_purchaseId :: "string option"
  b_returnUrl :: "string option"

record gateway_request =
  g_method :: string
  g_json :: "gateway_body option"
  g_origin :: "string option"

text \<open>
  What the outside world answers during one call: the id and URL of the session the
  provider would create (\<open>None\<close> when the creation throws), and whether the update of
  the purchase row fails.
\<close>

record gateway_answers =
  new_session :: "(string \<times> string option) option"
  update_fails :: bool

text \<open>\<^verbatim>\<open>Math.round(Number(purchase.total_paid) * 100)\<close>: halves round up.\<close>

definition amountInCents :: "Purchase \<Rightarrow> int" where
  "amountInCents purchase = \<lfloor>total_paid purchase * 100 + 1 / 2\<rfloor>"

definition siteUrl :: "gateway_env \<Rightarrow> gateway_request \<Rightarrow> gateway_body \<Rightarrow> string" where
  "siteUrl env req b =
     (if truthy (b_returnUrl b) then the (b_returnUrl b)
      else if truthy (g_origin req) then the (g_origin req)
      else if truthy (g_siteUrl env) then the (g_siteUrl env)
      else ''http://localhost:5173'')"

text \<open>
  The end of the handler, reached when no open session could be reused: the amount
  check, the creation of the session and the update of the purchase row.
\<close>

definition store_session :: "Purchase \<Rightarrow> string \<Rightarrow> Purchase list \<Rightarrow> Purchase list" where
  "store_session purchase sid db =
     update_where (\<lambda>r. pur_id r = pur_id purchase)
       (\<lambda>r. r\<lparr> stripe_checkout_session_id := Some sid, payment_status := Pending \<rparr>) db"

definition create_new_session ::
  "string \<Rightarrow> gateway_answers \<Rightarrow> Purchase \<Rightarrow> Purchase list \<times> stripe_session list
     \<Rightarrow> response \<times> Purchase list \<times> stripe_session list" where
  "create_new_session site ans purchase w =
     (let (db, st) = w in
      if amountInCents purchase \<le> 0
      then (jsonResponse 400 (ErrorJson ''Invalid purchase amount.''), db, st)
      else
        (case new_session ans of
           None \<Rightarrow> (\<lparr> status = 500, body = Plain ''Internal Server Error'' \<rparr>, db, st)
         | Some (sid, url) \<Rightarrow>
             (let session = \<lparr> ss_id = sid, ss_status = Some ''open'', ss_url = url,
                               ss_unit_amount = amountInCents purchase,
                               ss_customer_email = customer_email purchase,
                               ss_success_url = site @ ''/#/profile'',
                               ss_purchase_id = pur_id purchase,
                               ss_drop_id = pur_drop_id purchase \<rparr>;
                  st' = session # st
              in if update_fails ans
                 then (jsonResponse 500 (ErrorJson ''Failed to store checkout session.''), db, st')
                 else
                   (let db' = store_session purchase sid db
                    in if \<not> truthy url
                       then (jsonResponse 500
                               (ErrorJson ''Stripe did not return a checkout URL.''), db', st')
                       else (jsonResponse 200 (SessionJson (the url) sid False), db', st')))))"

text \<open>
  The part of the handler after the purchase row has been read: the rejection of paid
  and refunded orders and the reuse of an open session.
\<close>

definition checkout_for_purchase ::
  "string \<Rightarrow> gateway_answers \<Rightarrow> Purchase \<Rightarrow> Purchase list \<times> stripe_session list
     \<Rightarrow> response \<times> Purchase list \<times> stripe_session list" where
  "checkout_for_purchase site ans purchase w =
     (let (db, st) = w in
      if payment_status purchase = Paid
      then (jsonResponse 400 (ErrorJson ''Purchase is already paid.''), db, st)
      else if payment_status purchase = Refunded
      then (jsonResponse 400
              (ErrorJson ''Purchase has been refunded and cannot be repaid.''), db, st)
      else
        (case (if truthy (stripe_checkout_session_id purchase)
               then retrieve_session st (the (stripe_checkout_session_id purchase))
               else None) of
           Some existing \<Rightarrow>
             if ss_status existing = Some ''open'' \<and> truthy (ss_url existing)
             then (jsonResponse 200
                     (SessionJson (the (ss_url existing)) (ss_id existing) True), db, st)
             else create_new_session site ans purchase (db, st)
         | None \<Rightarrow> create_new_session site ans purchase (db, st)))"

definition create_checkout_session ::
  "gateway_env \<Rightarrow> gateway_answers \<Rightarrow> gateway_request
     \<Rightarrow> Purchase list \<times> stripe_session list
     \<Rightarrow> response \<times> Purchase list \<times> stripe_session list" where
  "create_checkout_session env ans req w =
     (let (db, st) = w in
      if g_method req = ''OPTIONS'' then (\<lparr> status = 200, body = Plain ''ok'' \<rparr>, db, st)
      else if g_method req \<noteq> ''POST''
      then (jsonResponse 405 (ErrorJson ''Method not allowed''), db, st)
      else if \<not> truthy (g_supabaseUrl env) \<or> \<not> truthy (g_serviceRoleKey env)
              \<or> \<not> truthy (g_stripeSecretKey env)
      then (jsonResponse 500 (ErrorJson ''Missing required function secrets.''), db, st)
      else
        (case g_json req of
           None \<Rightarrow> (jsonResponse 400 (ErrorJson ''Invalid JSON body.''), db, st)
         | Some b \<Rightarrow>
             if \<not> truthy (b_purchaseId b)
             then (jsonResponse 400 (ErrorJson ''purchaseId is required.''), db, st)
             else
               (case select_single (the (b_purchaseId b)) db of
                  None \<Rightarrow> (jsonResponse 404 (ErrorJson ''Purchase not found.''), db, st)
                | Some purchase \<Rightarrow>
                    checkout_for_purchase (siteUrl env req b) ans purchase (db, st))))"

text \<open>A request that passes the method and configuration checks of the gateway.\<close>

definition gateway_ready :: "gateway_env \<Rightarrow> gateway_request \<Rightarrow> bool" where
  "gateway_ready env req \<longleftrightarrow>
     g_method req = ''POST'' \<and> truthy (g_supabaseUrl env) \<and> truthy (g_serviceRoleKey env)
     \<and> truthy (g_stripeSecretKey env)"

section \<open>Payment Reconciliation Listener (edge function stripe-webhook)\<close>

text \<open>The handler passed to \<^verbatim>\<open>Deno.serve\<close> in src/unnamed/part_006.\<close>

text \<open>
  \<^verbatim>\<open>typeof x.payment_intent === 'string'\<close> separates an id from an expanded object or
  null.
\<close>

datatype payment_intent_ref = IntentId string | IntentOther

record event_object =
  obj_id :: string
  metadata_purchase_id :: "string option"
  payment_intent :: payment_intent_ref

record stripe_event =
  ev_type :: string
  ev_object :: event_object

record webhook_env =
  w_supabaseUrl :: "string option"
  w_serviceRoleKey :: "string option"
  w_stripeSecretKey :: "string option"
  w_stripeWebhookSecret :: "string option"

record webhook_request =
  w_method :: string
  w_signature :: "string option"
  w_body :: string

text \<open>
  \<^verbatim>\<open>stripe.webhooks.constructEventAsync(body, signature, secret)\<close> is the provider's
  library: a parameter of the handler, giving the parsed event or the message of the
  error it throws.
\<close>

type_synonym construct_event = "string \<Rightarrow> string \<Rightarrow> string \<Rightarrow> string + stripe_event"

definition intent_id :: "payment_intent_ref \<Rightarrow> string option" where
  "intent_id p = (case p of IntentId x \<Rightarrow> Some x | IntentOther \<Rightarrow> None)"

definition on_completed :: "string \<Rightarrow> stripe_event \<Rightarrow> Purchase list \<Rightarrow> Purchase list" where
  "on_completed now ev db =
     (if ev_type ev = ''checkout.session.completed''
         \<and> truthy (metadata_purchase_id (ev_object ev))
      then update_where (\<lambda>r. pur_id r = the (metadata_purchase_id (ev_object ev)))
             (\<lambda>r. r\<lparr> payment_status := Paid,
                       stripe_checkout_session_id := Some (obj_id (ev_object ev)),
                       stripe_payment_intent_id := intent_id (payment_intent (ev_object ev)),
                       paid_at := Some now \<rparr>) db
      else db)"

definition on_failed :: "stripe_event \<Rightarrow> Purchase list \<Rightarrow> Purchase list" where
  "on_failed ev db =
     (if (ev_type ev = ''checkout.session.async_payment_failed''
            \<or> ev_type ev = ''checkout.session.expired'')
         \<and> truthy (metadata_purchase_id (ev_object ev))
      then update_where (\<lambda>r. pur_id r = the (metadata_purchase_id (ev_object ev))
                              \<and> payment_status r \<noteq> Paid)
             (\<lambda>r. r\<lparr> payment_status := Failed,
                       stripe_checkout_session_id := Some (obj_id (ev_object ev)) \<rparr>) db
      else db)"

definition on_refunded :: "stripe_event \<Rightarrow> Purchase list \<Rightarrow> Purchase list" where
  "on_refunded ev db =
     (if ev_type ev = ''charge.refunded''
         \<and> truthy (intent_id (payment_intent (ev_object ev)))
      then update_where
             (\<lambda>r. stripe_payment_intent_id r = intent_id (payment_intent (ev_object ev)))
             (\<lambda>r. r\<lparr> payment_status := Refunded \<rparr>) db
      else db)"

text \<open>The events for which the handler calls the database client.\<close>

definition touches_purchases :: "stripe_event \<Rightarrow> bool" where
  "touches_purchases ev \<longleftrightarrow>
     (ev_type ev = ''checkout.session.completed''
        \<or> ev_type ev = ''checkout.session.async_payment_failed''
        \<or> ev_type ev = ''checkout.session.expired'')
       \<and> truthy (metadata_purchase_id (ev_object ev))
     \<or> ev_type ev = ''charge.refunded''
       \<and> truthy (intent_id (payment_intent (ev_object ev)))"

text \<open>
  The handler. \<open>now\<close> is the reading of the clock (\<^verbatim>\<open>new Date().toISOString()\<close>) and
  \<open>fault\<close> the message of an exception thrown by the database client inside the
  \<^verbatim>\<open>try\<close> block, if any; a call that throws leaves the table as it was.
\<close>

definition stripe_webhook ::
  "webhook_env \<Rightarrow> construct_event \<Rightarrow> string \<Rightarrow> string option \<Rightarrow> webhook_request
     \<Rightarrow> Purchase list \<Rightarrow> response \<times> Purchase list" where
  "stripe_webhook env constructEvent now fault req db =
     (if w_method req = ''OPTIONS'' then (\<lparr> status = 200, body = Plain ''ok'' \<rparr>, db)
      else if w_method req \<noteq> ''POST''
      then (jsonResponse 405 (ErrorJson ''Method not allowed''), db)
      else if \<not> truthy (w_supabaseUrl env) \<or> \<not> truthy (w_serviceRoleKey env)
              \<or> \<not> truthy (w_stripeSecretKey env) \<or> \<not> truthy (w_stripeWebhookSecret env)
      then (jsonResponse 500 (ErrorJson ''Missing required function secrets.''), db)
      else if \<not> truthy (w_signature req)
      then (jsonResponse 400 (ErrorJson ''Missing stripe-signature header.''), db)
      else
        (case constructEvent (w_body req) (the (w_signature req))
                (the (w_stripeWebhookSecret env)) of
           Inl message \<Rightarrow> (jsonResponse 400 (ErrorJson message), db)
         | Inr ev \<Rightarrow>
             if touches_purchases ev \<and> fault \<noteq> None
             then (jsonResponse 500 (ErrorJson (the fault)), db)
             else (jsonResponse 200 ReceivedJson,
                   on_refunded ev (on_failed ev (on_completed now ev db)))))"

text \<open>
  A request whose signature header is missing, or whose signature the provider's library
  refuses for the configured secret.
\<close>

definition signature_rejected ::
  "webhook_env \<Rightarrow> construct_event \<Rightarrow> webhook_request \<Rightarrow> bool" where
  "signature_rejected env constructEvent req \<longleftrightarrow>
     (case w_signature req of
        None \<Rightarrow> True
      | Some sg \<Rightarrow> sg = [] \<or>
          (case w_stripeWebhookSecret env of
             None \<Rightarrow> True
           | Some secret \<Rightarrow> isl (constructEvent (w_body req) sg secret)))"

text \<open>
  A request that passes every check of the handler and carries the event \<open>ev\<close>.
\<close>

definition webhook_accepts ::
  "webhook_env \<Rightarrow> construct_event \<Rightarrow> webhook_request \<Rightarrow> stripe_event \<Rightarrow> bool" where
  "webhook_accepts env constructEvent req ev \<longleftrightarrow>
     w_method req = ''POST'' \<and> truthy (w_supabaseUrl env) \<and> truthy (w_serviceRoleKey env)
     \<and> truthy (w_stripeSecretKey env) \<and> truthy (w_stripeWebhookSecret env)
     \<and> truthy (w_signature req)
     \<and> constructEvent (w_body req) (the (w_signature req)) (the (w_stripeWebhookSecret env))
         = Inr ev"

definition is_2xx :: "response \<Rightarrow> bool" where
  "is_2xx r \<longleftrightarrow> 200 \<le> status r \<and> status r < 300"

definition is_error_json :: "response \<Rightarrow> bool" where
  "is_error_json r = (case body r of ErrorJson msg \<Rightarrow> True | _ \<Rightarrow> False)"

section \<open>Inventory Reservation Core\<close>

record database =
  drops :: "Drop list"
  purchases :: "Purchase list"

record rpc_params =
  rp_drop_id :: string
  rp_user_id :: "string option"
  rp_customer_name :: string
  rp_customer_email :: string
  rp_quantity :: int
  rp_total_paid :: real
  rp_delivery_requested :: bool
  rp_delivery_address :: "string option"
  rp_selected_items :: "SelectedItem list"
  rp_drop_name :: string
  rp_drop_image :: string
  rp_order_notes :: "string option"
  rp_is_bulk :: bool

datatype reservation_error =
  DropNotApproved | DropNotLive | InsufficientInventory | PersistenceError

definition find_drop :: "database \<Rightarrow> string \<Rightarrow> Drop option" where
  "find_drop db did = find (\<lambda>x. drop_id x = did) (drops db)"

definition is_live :: "Drop \<Rightarrow> int \<Rightarrow> bool" where
  "is_live d now \<longleftrightarrow> start_date d \<le> now \<and> now \<le> end_date d"

text \<open>
  Modelled from the spec: the stored procedure \<^verbatim>\<open>purchase_drop_item\<close>, which savePurchase
  calls and whose SQL is not among the sources. Section 4.3: as one atomic unit, verify
  that the drop is approved, within its live window and has remaining stock for the
  quantity; decrement the remaining stock by the quantity; insert a new order row with
  status pending and the server-recomputed total. The failures are DropNotApproved,
  DropNotLive, InsufficientInventory and a generic PersistenceError (here: an unknown
  drop, or an order id that is already taken). The server's recomputation of the total
  is the parameter \<open>server_total\<close>, the clock is \<open>now\<close> and the identity of the new row
  is \<open>new_id\<close>. Being atomic, the procedure is a function from the database before the
  call to the database after it, and concurrent calls take effect in some order.
\<close>

definition purchase_drop_item ::
  "(Drop \<Rightarrow> rpc_params \<Rightarrow> real) \<Rightarrow> int \<Rightarrow> string \<Rightarrow> rpc_params \<Rightarrow> database
     \<Rightarrow> reservation_error + string \<times> database" where
  "purchase_drop_item server_total now new_id ps db =
     (case find_drop db (rp_drop_id ps) of
        None \<Rightarrow> Inl PersistenceError
      | Some d \<Rightarrow>
          if approval_status d \<noteq> APPROVED then Inl DropNotApproved
          else if \<not> is_live d now then Inl DropNotLive
          else if quantity_remaining d < rp_quantity ps then Inl InsufficientInventory
          else if new_id \<in> set (map pur_id (purchases db)) then Inl PersistenceError
          else Inr (new_id,
                 db\<lparr> drops :=
                        map (\<lambda>x. if drop_id x = rp_drop_id ps
                                 then x\<lparr> quantity_remaining :=
                                           quantity_remaining x - rp_quantity ps \<rparr>
                                 else x) (drops db),
                      purchases := purchases db @
                        [\<lparr> pur_id = new_id, pur_user_id = rp_user_id ps,
                           customer_name = rp_customer_name ps,
                           customer_email = rp_customer_email ps,
                           pur_drop_id = rp_drop_id ps, pur_drop_name = rp_drop_name ps,
                           pur_quantity = rp_quantity ps,
                           total_paid = server_total d ps,
                           payment_status = Pending,
                           stripe_checkout_session_id = None,
                           stripe_payment_intent_id = None, paid_at = None,
                           delivery_requested = rp_delivery_requested ps,
                           delivery_address = rp_delivery_address ps,
                           selected_items = rp_selected_items ps,
                           order_notes = rp_order_notes ps,
                           is_bulk = rp_is_bulk ps \<rparr>] \<rparr>))"

text \<open>
  savePurchase (services/api.ts): the approval check on the caller's copy of the drop,
  the total, the call of the stored procedure, and the read of the new row.
\<close>

datatype purchase_failure =
    NotApprovedForBooking
  | RpcError reservation_error
  | FetchError

definition rpcParams :: "Drop \<Rightarrow> payload \<Rightarrow> rpc_params" where
  "rpcParams d pl =
     \<lparr> rp_drop_id = drop_id d,
       rp_user_id = (if truthy (p_userId pl) then p_userId pl else None),
       rp_customer_name = p_customerName pl, rp_customer_email = p_customerEmail pl,
       rp_quantity = p_quantity pl, rp_total_paid = savePurchase_total d pl,
       rp_delivery_requested = p_deliveryRequested pl,
       rp_delivery_address =
         (if truthy (p_deliveryAddress pl) then p_deliveryAddress pl else None),
       rp_selected_items = (case p_selectedItems pl of None \<Rightarrow> [] | Some items \<Rightarrow> items),
       rp_drop_name = drop_name d, rp_drop_image = drop_image d,
       rp_order_notes = (if truthy (p_orderNotes pl) then p_orderNotes pl else None),
       rp_is_bulk = (case p_isBulk pl of None \<Rightarrow> False | Some b \<Rightarrow> b) \<rparr>"

definition savePurchase ::
  "(Drop \<Rightarrow> rpc_params \<Rightarrow> real) \<Rightarrow> int \<Rightarrow> string \<Rightarrow> Drop \<Rightarrow> payload \<Rightarrow> database
     \<Rightarrow> (purchase_failure + Purchase) \<times> database" where
  "savePurchase server_total now new_id d pl db =
     (if approval_status d \<noteq> APPROVED then (Inl NotApprovedForBooking, db)
      else
        (case purchase_drop_item server_total now new_id (rpcParams d pl) db of
           Inl e \<Rightarrow> (Inl (RpcError e), db)
         | Inr (pid, db') \<Rightarrow>
             (case select_single pid (purchases db') of
                None \<Rightarrow> (Inl FetchError, db')
              | Some row \<Rightarrow> (Inr row, db'))))"

text \<open>
  A reservation attempt: the caller's copy of the drop and the payload, with the clock
  and the fresh order id of the moment the stored procedure runs. A set of concurrent
  attempts settles as the attempts run one after the other in some order.
\<close>

record attempt =
  a_now :: int
  a_new_id :: string
  a_drop :: Drop
  a_payload :: payload

fun run_attempts ::
  "(Drop \<Rightarrow> rpc_params \<Rightarrow> real) \<Rightarrow> attempt list \<Rightarrow> database
     \<Rightarrow> (purchase_failure + Purchase) list \<times> database" where
  "run_attempts server_total [] db = ([], db)"
| "run_attempts server_total (a # as) db =
     (let (r, db') = savePurchase server_total (a_now a) (a_new_id a) (a_drop a)
                       (a_payload a) db;
          (rs, db'') = run_attempts server_total as db'
      in (r # rs, db''))"

fun successful :: "(purchase_failure + Purchase) list \<Rightarrow> Purchase list" where
  "successful [] = []"
| "successful (Inl e # rs) = successful rs"
| "successful (Inr row # rs) = row # successful rs"

definition remaining_of :: "database \<Rightarrow> string \<Rightarrow> int" where
  "remaining_of db did =
     (case find_drop db did of None \<Rightarrow> 0 | Some d \<Rightarrow> quantity_remaining d)"









section \<open>Example data\<close>

text \<open>
  The scenario of section 8: an approved drop of one unit at 10 dollars without menu
  items, tax or delivery, ordered once with a booking fee of 1 dollar per package.
\<close>

definition example_drop :: Drop where
  "example_drop =
     \<lparr> drop_id = ''drop-1'', drop_name = ''Brisket Box'', drop_image = ''brisket.png'',
       start_date = 0, end_date = 100, price = 10, tax_rate = None, total_quantity = 1,
       quantity_remaining = 1, approval_status = APPROVED, menu_items = [],
       delivery_fee = 0 \<rparr>"

definition example_payload :: payload where
  "example_payload =
     \<lparr> p_userId = None, p_quantity = 1, p_customerName = ''Ada'',
       p_customerEmail = ''ada@example.org'', p_deliveryRequested = False,
       p_selectedItems = Some (finalSelections example_drop []),
       p_deliveryAddress = None, p_orderNotes = None, p_isBulk = None \<rparr>"

text \<open>A drop with one menu item and one modifier group of three options.\<close>

definition opt_a :: ModifierOption where
  "opt_a = \<lparr> opt_id = ''a'', opt_name = ''Slaw'', additionalPrice = 2 \<rparr>"

definition opt_b :: ModifierOption where
  "opt_b = \<lparr> opt_id = ''b'', opt_name = ''Beans'', additionalPrice = 3 \<rparr>"

definition opt_c :: ModifierOption where
  "opt_c = \<lparr> opt_id = ''c'', opt_name = ''Pickles'', additionalPrice = 1 \<rparr>"

definition sides_group :: "real \<Rightarrow> real \<Rightarrow> ModifierGroup" where
  "sides_group lo hi =
     \<lparr> grp_id = ''g1'', grp_name = ''Sides'', minSelect = lo, maxSelect = hi,
       grp_options = [opt_a, opt_b, opt_c] \<rparr>"

definition brisket_item :: "real \<Rightarrow> real \<Rightarrow> MenuItem" where
  "brisket_item lo hi =
     \<lparr> item_id = ''i1'', item_name = ''Brisket'', basePrice = 10,
       modifierGroups = [sides_group lo hi] \<rparr>"

definition menu_drop :: "real \<Rightarrow> real \<Rightarrow> Drop" where
  "menu_drop lo hi = example_drop\<lparr> menu_items := [brisket_item lo hi] \<rparr>"

definition example_user :: User where
  "example_user = \<lparr> user_id = ''u1'', user_name = ''Ada'', user_email = ''ada@example.org'' \<rparr>"

definition example_ui :: "selections \<Rightarrow> ui_state" where
  "example_ui sels =
     \<lparr> qty = 1, qtyError = None, isCheckoutOpen = False, isQuickCheckoutLoading = False,
       deliveryRequested = False, ui_selections = sels \<rparr>"

definition example_db :: database where
  "example_db = \<lparr> drops = [example_drop], purchases = [] \<rparr>"

definition three_clicks :: "real \<Rightarrow> click list" where
  "three_clicks cap =
     [\<lparr> c_item = ''i1'', c_group = ''g1'', c_option = opt_a, c_max = cap \<rparr>,
      \<lparr> c_item = ''i1'', c_group = ''g1'', c_option = opt_b, c_max = cap \<rparr>,
      \<lparr> c_item = ''i1'', c_group = ''g1'', c_option = opt_c, c_max = cap \<rparr>]"

definition three_sides :: selections where
  "three_sides = [(''i1'', [(''g1'', [opt_a, opt_b, opt_c])])]"

text \<open>
  A selection state that still holds a pick under a group key the item no longer has.
\<close>

definition stale_sides :: selections where
  "stale_sides = [(''i1'', [(''g1'', [opt_a]), (''g0'', [opt_b])])]"

text \<open>The example drop with its menu, a tax rate and a delivery fee.\<close>

definition priced_drop :: Drop where
  "priced_drop = (menu_drop 0 2)\<lparr> tax_rate := Some (1 / 10), delivery_fee := 5 \<rparr>"

definition no_fraction :: "real \<Rightarrow> string" where
  "no_fraction x = []"




definition two_sides :: selections where
  "two_sides = [(''i1'', [(''g1'', [opt_a, opt_b])])]"


text \<open>A pending order for the example drop, and a call of the gateway for it.\<close>

definition example_purchase :: Purchase where
  "example_purchase =
     \<lparr> pur_id = ''p1'', pur_user_id = None, customer_name = ''Ada'',
       customer_email = ''ada@example.org'', pur_drop_id = ''drop-1'',
       pur_drop_name = ''Brisket Box'', pur_quantity = 1, total_paid = 11,
       payment_status = Pending, stripe_checkout_session_id = None,
       stripe_payment_intent_id = None, paid_at = None, delivery_requested = False,
       delivery_address = None, selected_items = [], order_notes = None,
       is_bulk = False \<rparr>"

definition example_gateway_env :: gateway_env where
  "example_gateway_env =
     \<lparr> g_supabaseUrl = Some ''https://db.example.org'', g_serviceRoleKey = Some ''service-key'',
       g_stripeSecretKey = Some ''sk_test'', g_siteUrl = None \<rparr>"

definition example_gateway_request :: gateway_request where
  "example_gateway_request =
     \<lparr> g_method = ''POST'',
       g_json = Some \<lparr> b_purchaseId = Some ''p1'', b_returnUrl = Some ''https://shop.example.org'' \<rparr>,
       g_origin = None \<rparr>"

definition example_answers :: "string \<Rightarrow> gateway_answers" where
  "example_answers sid =
     \<lparr> new_session = Some (sid, Some (''https://pay.example.org/'' @ sid)),
       update_fails = False \<rparr>"

definition example_session :: stripe_session where
  "example_session =
     \<lparr> ss_id = ''cs_1'', ss_status = Some ''open'',
       ss_url = Some ''https://pay.example.org/cs_1'', ss_unit_amount = 1100,
       ss_customer_email = ''ada@example.org'',
       ss_success_url = ''https://shop.example.org/#/profile'',
       ss_purchase_id = ''p1'', ss_drop_id = ''drop-1'' \<rparr>"

definition referencing_purchase :: Purchase where
  "referencing_purchase = example_purchase\<lparr> stripe_checkout_session_id := Some ''cs_1'' \<rparr>"

definition failed_purchase :: Purchase where
  "failed_purchase = example_purchase\<lparr> payment_status := Failed \<rparr>"

definition paid_purchase :: Purchase where
  "paid_purchase =
     example_purchase\<lparr> payment_status := Paid, stripe_checkout_session_id := Some ''cs_1'',
       stripe_payment_intent_id := Some ''pi_1'',
       paid_at := Some ''2026-01-01T10:00:00.000Z'' \<rparr>"

text \<open>
  Webhook deliveries for that order. The example verifier accepts the signature
  \<open>sig-ok\<close> and reads the event type from the body.
\<close>

definition example_webhook_env :: webhook_env where
  "example_webhook_env =
     \<lparr> w_supabaseUrl = Some ''https://db.example.org'', w_serviceRoleKey = Some ''service-key'',
       w_stripeSecretKey = Some ''sk_test'', w_stripeWebhookSecret = Some ''whsec_test'' \<rparr>"

definition example_event :: "string \<Rightarrow> stripe_event" where
  "example_event ty =
     \<lparr> ev_type = ty,
       ev_object = \<lparr> obj_id = ''cs_1'', metadata_purchase_id = Some ''p1'',
                      payment_intent = IntentId ''pi_1'' \<rparr> \<rparr>"

definition example_construct :: construct_event where
  "example_construct payload sg secret =
     (if sg = ''sig-ok'' \<and> secret = ''whsec_test'' then Inr (example_event payload)
      else Inl ''No signatures found matching the expected signature for payload.'')"

definition example_delivery :: "string \<Rightarrow> string option \<Rightarrow> string \<Rightarrow> webhook_request" where
  "example_delivery method sg ty = \<lparr> w_method = method, w_signature = sg, w_body = ty \<rparr>"

text \<open>
  Modelled from the spec: the total that the stored procedure recomputes (section 4.1),
  from the drop row, the submitted selections and the per-package booking fee.
\<close>

definition spec_total :: "real \<Rightarrow> Drop \<Rightarrow> rpc_params \<Rightarrow> real" where
  "spec_total fee d ps =
     (let unit = (if menu_items d = [] then price d
                  else (\<Sum>item\<leftarrow>rp_selected_items ps.
                          sel_basePrice item
                            + (\<Sum>g\<leftarrow>selectedModifiers item.
                                 \<Sum>o'\<leftarrow>sel_options g. additionalPrice o')));
          q = real_of_int (rp_quantity ps);
          delivery = (if rp_delivery_requested ps then delivery_fee d else 0);
          taxable = unit * q + delivery + fee * q
      in taxable + taxable * (case tax_rate d of None \<Rightarrow> 0 | Some r \<Rightarrow> r))"

text \<open>Two simultaneous requests for the last unit of the example drop.\<close>

definition last_unit_attempts :: "attempt list" where
  "last_unit_attempts =
     [\<lparr> a_now = 5, a_new_id = ''p1'', a_drop = example_drop, a_payload = example_payload \<rparr>,
      \<lparr> a_now = 5, a_new_id = ''p2'', a_drop = example_drop, a_payload = example_payload \<rparr>]"

definition sold_out_db :: database where
  "sold_out_db =
     \<lparr> drops = [example_drop\<lparr> quantity_remaining := 0 \<rparr>], purchases = [example_purchase] \<rparr>"

section \<open>Pricing: results\<close>

lemma fold_add_sum_list:
  "fold (\<lambda>x t. t + f x) xs (t::real) = t + (\<Sum>x\<leftarrow>xs. f x)"
  by (induction xs arbitrary: t) simp_all

lemma fold_add_groups:
  "fold (\<lambda>opts t. fold (\<lambda>o' t'. t' + additionalPrice o') opts t) gs t
     = t + (\<Sum>opts\<leftarrow>gs. \<Sum>o'\<leftarrow>opts. additionalPrice o')"
  by (induction gs arbitrary: t) (simp_all add: fold_add_sum_list)

lemma sum_list_absent_key:
  "a \<notin> fst ` set xs \<Longrightarrow> (\<Sum>(k, v)\<leftarrow>xs. if k = a then f v else (0::real)) = 0"
  by (induction xs) auto

lemma sum_list_at_key:
  "js_object xs \<Longrightarrow>
     (\<Sum>(k, v)\<leftarrow>xs. if k = a then f v else (0::real))
       = (case map_of xs a of None \<Rightarrow> 0 | Some v \<Rightarrow> f v)"
  unfolding js_object_def
proof (induction xs)
  case Nil
  then show ?case by simp
next
  case (Cons kv xs)
  obtain k v where kv: "kv = (k, v)" by (cases kv)
  show ?case
  proof (cases "k = a")
    case True
    then have "a \<notin> fst ` set xs" using Cons.prems kv by simp
    then show ?thesis using True kv by (simp add: sum_list_absent_key)
  next
    case False
    then show ?thesis using Cons kv by simp
  qed
qed

lemma item_surcharges_lookup:
  assumes "js_object sels"
  shows "spec_item_surcharges sels item
     = (\<Sum>(gid, opts)\<leftarrow>item_sels sels (item_id item). \<Sum>o'\<leftarrow>opts. additionalPrice o')"
  unfolding spec_item_surcharges_def sum_list_at_key[OF assms]
  by (simp add: item_sels_def split: option.split)

lemma itemTotal_sum:
  assumes "js_object sels"
  shows "itemTotal sels item = basePrice item + spec_item_surcharges sels item"
  unfolding item_surcharges_lookup[OF assms]
  by (simp add: itemTotal_def fold_add_groups comp_def case_prod_unfold)

lemma unitPrice_refines:
  assumes "js_object sels"
  shows "unitPrice d sels = spec_unitPrice d sels"
  by (simp add: unitPrice_def spec_unitPrice_def fold_add_sum_list itemTotal_sum[OF assms])

lemma sum_list_single_out:
  "distinct ks \<Longrightarrow> k \<in> set ks \<Longrightarrow>
     (\<Sum>k'\<leftarrow>ks. if k' = k then a else g k') = a + (\<Sum>k'\<leftarrow>ks. g k') - (g k :: real)"
proof (induction ks)
  case Nil
  then show ?case by simp
next
  case (Cons x ks)
  show ?case
  proof (cases "x = k")
    case True
    then have "k \<notin> set ks" using Cons.prems(1) by simp
    then have "(\<Sum>k'\<leftarrow>ks. if k' = k then a else g k') = (\<Sum>k'\<leftarrow>ks. g k')"
      by (intro arg_cong[where f = sum_list] map_cong) auto
    then show ?thesis using True by simp
  next
    case False
    then show ?thesis using Cons by simp
  qed
qed

lemma sum_list_by_keys:
  assumes "js_object xs" and "distinct ks" and "fst ` set xs \<subseteq> set ks"
  shows "(\<Sum>(k, v)\<leftarrow>xs. f v)
     = (\<Sum>k\<leftarrow>ks. case map_of xs k of None \<Rightarrow> (0::real) | Some v \<Rightarrow> f v)"
  using assms(1,3) unfolding js_object_def
proof (induction xs)
  case Nil
  then show ?case by simp
next
  case (Cons kv xs)
  obtain k v where kv: "kv = (k, v)" by (cases kv)
  have k: "k \<in> set ks" "k \<notin> fst ` set xs" using Cons.prems kv by auto
  then have none: "map_of xs k = None" by (simp add: map_of_eq_None_iff)
  have "(\<Sum>k'\<leftarrow>ks. case map_of (kv # xs) k' of None \<Rightarrow> 0 | Some v \<Rightarrow> f v)
      = (\<Sum>k'\<leftarrow>ks. if k' = k then f v
                     else (case map_of xs k' of None \<Rightarrow> 0 | Some v \<Rightarrow> f v))"
    by (intro arg_cong[where f = sum_list] map_cong) (auto simp: kv)
  also have "\<dots> = f v + (\<Sum>k'\<leftarrow>ks. case map_of xs k' of None \<Rightarrow> 0 | Some v \<Rightarrow> f v)"
    using sum_list_single_out[OF assms(2) k(1),
        of "f v" "\<lambda>k'. case map_of xs k' of None \<Rightarrow> 0 | Some v \<Rightarrow> f v"] none
    by simp
  finally show ?case using Cons kv by simp
qed

lemma js_object_item_sels:
  "selection_object sels \<Longrightarrow> js_object (item_sels sels iid)"
proof -
  assume a: "selection_object sels"
  show ?thesis
  proof (cases "map_of sels iid")
    case None
    then show ?thesis by (simp add: item_sels_def js_object_def)
  next
    case (Some groups)
    then have "(iid, groups) \<in> set sels" by (rule map_of_SomeD)
    then have "js_object groups"
      using a by (auto simp: selection_object_def list_all_iff)
    then show ?thesis using Some by (simp add: item_sels_def)
  qed
qed

lemma group_sels_item:
  "group_sels prev iid gid
     = (case map_of (item_sels prev iid) gid of None \<Rightarrow> [] | Some os \<Rightarrow> os)"
  by (simp add: group_sels_def item_sels_def split: option.splits)

lemma surcharges_by_group:
  assumes "selection_object sels" and "fits_item sels item"
  shows "spec_item_surcharges sels item = spec_item_surcharges_by_group sels item"
proof -
  let ?xs = "item_sels sels (item_id item)"
  let ?f = "\<lambda>opts. \<Sum>o'\<leftarrow>opts. additionalPrice o'"
  have o: "js_object sels" using assms(1) by (simp add: selection_object_def)
  have d: "distinct (map grp_id (modifierGroups item))"
    and s: "fst ` set ?xs \<subseteq> set (map grp_id (modifierGroups item))"
    using assms(2) by (simp_all add: fits_item_def)
  have "spec_item_surcharges sels item = (\<Sum>(gid, opts)\<leftarrow>?xs. ?f opts)"
    by (rule item_surcharges_lookup[OF o])
  also have "\<dots> = (\<Sum>k\<leftarrow>map grp_id (modifierGroups item).
                       case map_of ?xs k of None \<Rightarrow> 0 | Some v \<Rightarrow> ?f v)"
    by (rule sum_list_by_keys[OF js_object_item_sels[OF assms(1)] d s])
  also have "\<dots> = spec_item_surcharges_by_group sels item"
    unfolding spec_item_surcharges_by_group_def group_sels_item
    by (simp add: comp_def option.case_distrib[of ?f] cong: option.case_cong)
  finally show ?thesis .
qed

text \<open>
  C4. For every drop, selection map, quantity, delivery flag, per-package booking fee
  and tax rate, the Pricing Engine computes the unit price as the sum over the menu
  items of base price plus the surcharges of the options the selection map holds for the
  item (the flat price when there are no menu items), the subtotal as unit price times
  quantity, the booking fee as the per-package fee times quantity, the delivery fee as
  the drop's flat fee when delivery is requested and 0 otherwise, the tax as (subtotal +
  delivery fee + booking fee) times the tax rate (0 when unset), and the total as
  subtotal + delivery fee + booking fee + tax. Where the selection map fits the menu
  items, the surcharges are those of the options selected in the items' modifier groups.
\<close>

theorem pricing_engine_contract:
  assumes "selection_object sels"
  shows "unitPrice d sels = spec_unitPrice d sels
   \<and> calculatedSubtotal d sels q = spec_unitPrice d sels * real_of_int q
   \<and> bookingFee fee q = fee * real_of_int q
   \<and> deliveryFee d delivery = (if delivery then delivery_fee d else 0)
   \<and> taxAmount d sels q delivery fee
       = spec_taxable d sels q delivery fee * (case tax_rate d of None \<Rightarrow> 0 | Some r \<Rightarrow> r)
   \<and> orderTotal d sels q delivery fee = spec_total_displayed d sels q delivery fee
   \<and> (menu_items d \<noteq> [] \<and> list_all (fits_item sels) (menu_items d) \<longrightarrow>
        unitPrice d sels
          = (\<Sum>item\<leftarrow>menu_items d. basePrice item + spec_item_surcharges_by_group sels item))"
proof -
  have o: "js_object sels" using assms by (simp add: selection_object_def)
  have u: "unitPrice d sels = spec_unitPrice d sels"
    by (rule unitPrice_refines[OF o])
  have t: "taxRate d = (case tax_rate d of None \<Rightarrow> 0 | Some r \<Rightarrow> r)"
    by (simp add: taxRate_def or_zero_def split: option.split)
  have f: "deliveryFee d delivery = (if delivery then delivery_fee d else 0)"
    by (simp add: deliveryFee_def or_zero_def)
  have g: "unitPrice d sels
          = (\<Sum>item\<leftarrow>menu_items d. basePrice item + spec_item_surcharges_by_group sels item)"
    if "menu_items d \<noteq> []" "list_all (fits_item sels) (menu_items d)"
  proof -
    have "(\<Sum>item\<leftarrow>menu_items d. basePrice item + spec_item_surcharges sels item)
        = (\<Sum>item\<leftarrow>menu_items d. basePrice item + spec_item_surcharges_by_group sels item)"
      using that(2) surcharges_by_group[OF assms]
      by (intro arg_cong[where f = sum_list] map_cong) (auto simp: list_all_iff)
    then show ?thesis using u that(1) by (simp add: spec_unitPrice_def)
  qed
  show ?thesis
    using u t f g
    by (simp add: calculatedSubtotal_def bookingFee_def taxAmount_def orderTotal_def
        spec_taxable_def spec_total_displayed_def)
qed

theorem pricing_engine_contract_witness:
  "selection_object two_sides
   \<and> menu_items priced_drop \<noteq> []
   \<and> list_all (fits_item two_sides) (menu_items priced_drop)
   \<and> unitPrice priced_drop two_sides = 15
   \<and> spec_unitPrice priced_drop two_sides = 15
   \<and> (\<Sum>item\<leftarrow>menu_items priced_drop.
         basePrice item + spec_item_surcharges_by_group two_sides item) = 15
   \<and> calculatedSubtotal priced_drop two_sides 2 = 30
   \<and> taxAmount priced_drop two_sides 2 True 1 = 37 / 10
   \<and> orderTotal priced_drop two_sides 2 True 1 = 407 / 10"
proof -
  have h: "selection_object two_sides"
    by (simp add: selection_object_def js_object_def two_sides_def)
  have m: "menu_items priced_drop \<noteq> []"
    "list_all (fits_item two_sides) (menu_items priced_drop)"
    by (simp_all add: priced_drop_def menu_drop_def fits_item_def brisket_item_def
        sides_group_def two_sides_def item_sels_def)
  have s: "spec_unitPrice priced_drop two_sides = 15"
    by (simp add: spec_unitPrice_def spec_item_surcharges_def priced_drop_def menu_drop_def
        brisket_item_def two_sides_def opt_a_def opt_b_def)
  have x: "spec_taxable priced_drop two_sides 2 True 1 = 37"
    "spec_total_displayed priced_drop two_sides 2 True 1 = 407 / 10"
    by (simp_all add: spec_total_displayed_def spec_taxable_def s)
      (simp_all add: priced_drop_def menu_drop_def example_drop_def)
  have r: "tax_rate priced_drop = Some (1 / 10)"
    by (simp add: priced_drop_def)
  from pricing_engine_contract[OF h, of priced_drop 2 1 True] h m s x r
  show ?thesis by simp
qed

text \<open>
  The view prices every pick stored under the item's id. A pick under a group key that
  the item does not have is priced, although the submitted order, which lists the
  selections group by group, does not contain it.
\<close>

lemma stale_group_key_is_priced:
  "unitPrice (menu_drop 0 2) stale_sides = 15
   \<and> (\<Sum>item\<leftarrow>menu_items (menu_drop 0 2).
         basePrice item + spec_item_surcharges_by_group stale_sides item) = 12
   \<and> map (\<lambda>i. map sel_options (selectedModifiers i))
         (finalSelections (menu_drop 0 2) stale_sides) = [[[opt_a]]]"
  by (simp add: unitPrice_def itemTotal_def item_sels_def stale_sides_def menu_drop_def
      brisket_item_def sides_group_def opt_a_def opt_b_def spec_item_surcharges_by_group_def
      group_sels_def finalSelections_def)

text \<open>
  C2 asks that the total which savePurchase computes for an order and submits as
  total_paid equal the total which the detail view displays for the same drop, quantity,
  delivery flag and selections. The two computations evaluated in the scenario of
  section 8 (price 10, quantity 1, booking fee 1 per package, no tax, no delivery): the
  view displays 11, savePurchase computes and submits 10.
\<close>

theorem savePurchase_total_omits_booking_fee:
  "savePurchase_total example_drop example_payload = 10
   \<and> rp_total_paid (rpcParams example_drop example_payload) = 10
   \<and> orderTotal example_drop [] 1 False 1 = 11"
  by (simp add: savePurchase_total_def example_drop_def example_payload_def rpcParams_def
      finalSelections_def modifiersCost_def orderTotal_def calculatedSubtotal_def
      unitPrice_def deliveryFee_def bookingFee_def taxAmount_def taxRate_def or_zero_def)

section \<open>Modifier selection: results\<close>

lemma group_sels_toggleOption:
  "group_sels (toggleOption iid gid opt m prev) iid' gid' =
     (if iid' = iid \<and> gid' = gid then newGroupSels opt m (group_sels prev iid gid)
      else group_sels prev iid' gid')"
  unfolding toggleOption_def Let_def group_sels_item[symmetric]
  by (simp add: group_sels_def item_sels_def update_conv' split: option.splits)

text \<open>
  The selection state stays an object of objects under toggleOption, so every state that
  clicks build from the empty selection is one.
\<close>

lemma set_update_subset: "set (AList.update k v xs) \<subseteq> insert (k, v) (set xs)"
  by (induction xs) auto

lemma selection_object_toggleOption:
  assumes "selection_object prev"
  shows "selection_object (toggleOption iid gid opt m prev)"
proof -
  let ?groups = "AList.update gid (newGroupSels opt m
      (case map_of (item_sels prev iid) gid of None \<Rightarrow> [] | Some os \<Rightarrow> os)) (item_sels prev iid)"
  have t: "toggleOption iid gid opt m prev = AList.update iid ?groups prev"
    by (simp add: toggleOption_def Let_def)
  have g: "js_object ?groups"
    using js_object_item_sels[OF assms, of iid] by (simp add: js_object_def distinct_update)
  have o: "js_object (AList.update iid ?groups prev)"
    using assms by (simp add: selection_object_def js_object_def distinct_update)
  have "\<forall>(i, groups)\<in>set (AList.update iid ?groups prev). js_object groups"
    using set_update_subset[of iid ?groups prev] g assms
    by (auto simp: selection_object_def list_all_iff)
  then show ?thesis
    unfolding t using o by (simp add: selection_object_def list_all_iff)
qed

lemma selection_object_apply_clicks:
  "selection_object prev \<Longrightarrow> selection_object (apply_clicks cs prev)"
  unfolding apply_clicks_def
  by (induction cs arbitrary: prev) (simp_all add: selection_object_toggleOption)

lemma newGroupSels_bound:
  assumes "int (length gs) \<le> \<lceil>m\<rceil>"
  shows "int (length (newGroupSels opt m gs)) \<le> \<lceil>m\<rceil>"
proof -
  have f: "int (length (filter (\<lambda>o'. opt_id o' \<noteq> opt_id opt) gs)) \<le> int (length gs)"
    by simp
  have a: "int (length gs) + 1 \<le> \<lceil>m\<rceil>" if "real (length gs) < m"
  proof -
    have "int (length gs) < \<lceil>m\<rceil>" using that by (simp add: less_ceiling_iff)
    then show ?thesis by simp
  qed
  show ?thesis
  proof (cases "find (\<lambda>o'. opt_id o' = opt_id opt) gs \<noteq> None")
    case True
    then show ?thesis using order_trans[OF f assms] by (simp add: newGroupSels_def)
  next
    case False
    then show ?thesis using assms a by (auto simp: newGroupSels_def)
  qed
qed

lemma apply_clicks_bound:
  assumes "\<forall>c\<in>set cs. c_item c = iid \<and> c_group c = gid \<longrightarrow> c_max c = m"
    and "int (length (group_sels prev iid gid)) \<le> \<lceil>m\<rceil>"
  shows "int (length (group_sels (apply_clicks cs prev) iid gid)) \<le> \<lceil>m\<rceil>"
  using assms
proof (induction cs arbitrary: prev)
  case Nil
  then show ?case by (simp add: apply_clicks_def)
next
  case (Cons c cs)
  let ?p = "toggleOption (c_item c) (c_group c) (c_option c) (c_max c) prev"
  have "int (length (group_sels ?p iid gid)) \<le> \<lceil>m\<rceil>"
    using Cons.prems by (auto simp: group_sels_toggleOption newGroupSels_bound)
  moreover have "apply_clicks (c # cs) prev = apply_clicks cs ?p"
    by (simp add: apply_clicks_def)
  ultimately show ?case using Cons.IH[of ?p] Cons.prems(1) by simp
qed

text \<open>
  C8, as the code has it. At selection time the number of selected options of a group is
  kept within the group's maxSelect rounded up to the next whole number, under every
  sequence of clicks in which the clicks on that group carry its maxSelect; for a
  maxSelect that is a whole number it is therefore kept within maxSelect itself. A click
  on an option that is not selected replaces the pick of a single-select group, is
  appended while the count is below maxSelect, and is refused otherwise. (At submission
  time only the minimum is checked.)
\<close>

theorem selection_cap_kept_by_toggleOption:
  assumes "\<forall>c\<in>set cs. c_item c = iid \<and> c_group c = gid \<longrightarrow> c_max c = m"
    and "int (length (group_sels prev iid gid)) \<le> \<lceil>m\<rceil>"
  shows "int (length (group_sels (apply_clicks cs prev) iid gid)) \<le> \<lceil>m\<rceil>
    \<and> (m \<in> \<int> \<longrightarrow> real (length (group_sels (apply_clicks cs prev) iid gid)) \<le> m)
    \<and> (find (\<lambda>o'. opt_id o' = opt_id opt) (group_sels prev iid gid) = None \<longrightarrow>
         group_sels (toggleOption iid gid opt m prev) iid gid =
           (if m = 1 then [opt]
            else if real (length (group_sels prev iid gid)) < m
                 then group_sels prev iid gid @ [opt]
                 else group_sels prev iid gid))"
proof -
  let ?n = "length (group_sels (apply_clicks cs prev) iid gid)"
  have b: "int ?n \<le> \<lceil>m\<rceil>" by (rule apply_clicks_bound[OF assms])
  have "real ?n \<le> m" if "m \<in> \<int>"
  proof -
    from that obtain z where z: "m = real_of_int z" by (auto elim: Ints_cases)
    then have "int ?n \<le> z" using b by simp
    then have "real_of_int (int ?n) \<le> real_of_int z" by (simp only: of_int_le_iff)
    then show ?thesis using z by simp
  qed
  then show ?thesis
    using b by (simp add: group_sels_toggleOption newGroupSels_def)
qed

lemma apply_three_clicks:
  "apply_clicks (three_clicks 2) [] = two_sides"
  "apply_clicks (three_clicks (5 / 2)) [] = three_sides"
  by (simp_all add: apply_clicks_def three_clicks_def toggleOption_def item_sels_def
      newGroupSels_def opt_a_def opt_b_def opt_c_def two_sides_def three_sides_def)

theorem selection_cap_kept_by_toggleOption_witness:
  "list_all (\<lambda>c. c_item c = ''i1'' \<and> c_group c = ''g1'' \<and> c_max c = 2) (three_clicks 2)
   \<and> int (length (group_sels [] ''i1'' ''g1'')) \<le> \<lceil>2::real\<rceil>
   \<and> (2::real) \<in> \<int>
   \<and> group_sels (apply_clicks (three_clicks 2) []) ''i1'' ''g1'' = [opt_a, opt_b]
   \<and> real (length (group_sels (apply_clicks (three_clicks 2) []) ''i1'' ''g1'')) \<le> 2
   \<and> group_sels (toggleOption ''i1'' ''g1'' opt_a 2 []) ''i1'' ''g1'' = [opt_a]"
proof -
  have h1: "\<forall>c\<in>set (three_clicks 2).
      c_item c = ''i1'' \<and> c_group c = ''g1'' \<longrightarrow> c_max c = 2"
    by (simp add: three_clicks_def)
  have h2: "int (length (group_sels [] ''i1'' ''g1'')) \<le> \<lceil>2::real\<rceil>"
    by (simp add: group_sels_def)
  have h3: "find (\<lambda>o'. opt_id o' = opt_id opt_a) (group_sels [] ''i1'' ''g1'') = None"
    by (simp add: group_sels_def)
  have h4: "(2::real) \<in> \<int>" by simp
  have e: "group_sels (apply_clicks (three_clicks 2) []) ''i1'' ''g1'' = [opt_a, opt_b]"
    by (simp add: apply_three_clicks two_sides_def group_sels_def)
  have l: "list_all (\<lambda>c. c_item c = ''i1'' \<and> c_group c = ''g1'' \<and> c_max c = 2)
      (three_clicks 2)"
    by (simp add: three_clicks_def)
  from selection_cap_kept_by_toggleOption[OF h1 h2, of opt_a] h2 h3 h4 e l
  show ?thesis by (simp add: group_sels_def)
qed

text \<open>
  C8 as stated fails. At submission time: with two options selected in a group whose
  maxSelect is 1, validateSelections accepts and the click submits the order. At
  selection time: for a group whose maxSelect was stored as 2.5, three clicks select
  three options.
\<close>

theorem max_select_not_checked_at_submission:
  "maxSelect (sides_group 0 1) < real (length (group_sels two_sides ''i1'' ''g1''))
   \<and> validateSelections no_fraction (menu_drop 0 1) two_sides = None
   \<and> snd (handlePurchaseClick no_fraction (menu_drop 0 1) (Some example_user)
            (example_ui two_sides))
       = [ConfirmCheckout ''Ada'' ''ada@example.org'' None]
   \<and> group_sels (apply_clicks (three_clicks (5 / 2)) []) ''i1'' ''g1'' = [opt_a, opt_b, opt_c]
   \<and> (5 / 2 :: real) < real (length (group_sels (apply_clicks (three_clicks (5 / 2)) [])
                                   ''i1'' ''g1''))"
  unfolding apply_three_clicks
  by (simp add: sides_group_def two_sides_def three_sides_def group_sels_def
      validateSelections_def menu_drop_def brisket_item_def violates_min_def
      handlePurchaseClick_def example_ui_def example_user_def example_drop_def)











section \<open>Checkout Session Gateway: results\<close>

lemma retrieve_session_id: "retrieve_session st sid = Some x \<Longrightarrow> ss_id x = sid"
  by (auto simp: retrieve_session_def find_Some_iff)

lemma gateway_reuse:
  assumes "gateway_ready env req"
    and "g_json req = Some b" and "truthy (b_purchaseId b)"
    and "select_single (the (b_purchaseId b)) db = Some purchase"
    and "payment_status purchase \<noteq> Paid" and "payment_status purchase \<noteq> Refunded"
    and "truthy (stripe_checkout_session_id purchase)"
    and "retrieve_session st (the (stripe_checkout_session_id purchase)) = Some existing"
    and "ss_status existing = Some ''open''" and "truthy (ss_url existing)"
  shows "create_checkout_session env ans req (db, st)
           = (jsonResponse 200 (SessionJson (the (ss_url existing))
                (the (stripe_checkout_session_id purchase)) True), db, st)"
  using assms retrieve_session_id[OF assms(8)]
  by (simp add: create_checkout_session_def checkout_for_purchase_def gateway_ready_def)

lemma select_single_mem: "select_single pid rows = Some r \<Longrightarrow> r \<in> set rows \<and> pur_id r = pid"
proof -
  assume a: "select_single pid rows = Some r"
  then have "filter (\<lambda>r. pur_id r = pid) rows = [r]"
    by (auto simp: select_single_def split: list.splits)
  then have "r \<in> set (filter (\<lambda>r. pur_id r = pid) rows)" by simp
  then show ?thesis by simp
qed

lemma select_single_update:
  assumes "select_single pid rows = Some r" "\<And>x. pur_id (upd x) = pur_id x"
  shows "select_single pid (update_where (\<lambda>x. pur_id x = pid) upd rows) = Some (upd r)"
proof -
  have f: "filter (\<lambda>r. pur_id r = pid) rows = [r]"
    using assms(1) by (auto simp: select_single_def split: list.splits)
  have "filter (\<lambda>r. pur_id r = pid) (map (\<lambda>r. if pur_id r = pid then upd r else r) rows)
      = map upd (filter (\<lambda>r. pur_id r = pid) rows)"
    by (induction rows) (auto simp: assms(2))
  then show ?thesis by (simp add: select_single_def update_where_def f)
qed

lemma retrieve_session_self:
  "retrieve_session st sid = Some x \<Longrightarrow> retrieve_session st (ss_id x) = Some x"
  using retrieve_session_id by fastforce

lemma create_new_session_ok:
  assumes "create_new_session site ans purchase (db, st) = (resp, db1, st1)"
    and "status resp = 200" and "body resp = SessionJson url sid reused"
  shows "\<not> reused \<and> url \<noteq> [] \<and> new_session ans = Some (sid, Some url)
         \<and> db1 = update_where (\<lambda>r. pur_id r = pur_id purchase)
                    (\<lambda>r. r\<lparr> stripe_checkout_session_id := Some sid,
                              payment_status := Pending \<rparr>) db"
  using assms
  by (auto simp: create_new_session_def jsonResponse_def Let_def truthy_def store_session_def
      split: if_splits option.splits prod.splits)

lemma checkout_for_purchase_ok:
  assumes "checkout_for_purchase site ans purchase (db, st) = (resp, db1, st1)"
    and "status resp = 200" and "body resp = SessionJson url sid reused"
  shows "payment_status purchase \<noteq> Paid \<and> payment_status purchase \<noteq> Refunded \<and> url \<noteq> []
      \<and> ((reused \<and> db1 = db \<and> st1 = st \<and> truthy (stripe_checkout_session_id purchase)
            \<and> sid = the (stripe_checkout_session_id purchase))
          \<or> (\<not> reused \<and> new_session ans = Some (sid, Some url)
              \<and> db1 = update_where (\<lambda>r. pur_id r = pur_id purchase)
                                (\<lambda>r. r\<lparr> stripe_checkout_session_id := Some sid,
                                          payment_status := Pending \<rparr>) db))"
proof -
  have np: "payment_status purchase \<noteq> Paid" "payment_status purchase \<noteq> Refunded"
    using assms by (auto simp: checkout_for_purchase_def jsonResponse_def split: if_splits)
  show ?thesis
  proof (cases "if truthy (stripe_checkout_session_id purchase)
               then retrieve_session st (the (stripe_checkout_session_id purchase))
               else None")
    case None
    then have "create_new_session site ans purchase (db, st) = (resp, db1, st1)"
      using assms(1) np by (simp add: checkout_for_purchase_def)
    from create_new_session_ok[OF this assms(2,3)] np show ?thesis by simp
  next
    case (Some existing)
    then have t: "truthy (stripe_checkout_session_id purchase)"
      and r: "retrieve_session st (the (stripe_checkout_session_id purchase)) = Some existing"
      by (auto split: if_splits)
    show ?thesis
    proof (cases "ss_status existing = Some ''open'' \<and> truthy (ss_url existing)")
      case True
      then have "(resp, db1, st1) = (jsonResponse 200
                     (SessionJson (the (ss_url existing)) (ss_id existing) True), db, st)"
        using assms(1) np Some by (simp add: checkout_for_purchase_def)
      then show ?thesis
        using assms(3) np t True retrieve_session_id[OF r]
        by (auto simp: jsonResponse_def truthy_def split: option.splits)
    next
      case False
      then have "create_new_session site ans purchase (db, st) = (resp, db1, st1)"
        using assms(1) np Some by (auto simp add: checkout_for_purchase_def)
      from create_new_session_ok[OF this assms(2,3)] np show ?thesis by simp
    qed
  qed
qed

lemma gateway_ok_cases:
  assumes "create_checkout_session env ans req (db, st) = (resp, db1, st1)"
    and "status resp = 200" and "body resp = SessionJson url sid reused"
  shows "gateway_ready env req \<and> (\<exists>b purchase. g_json req = Some b \<and> truthy (b_purchaseId b)
      \<and> select_single (the (b_purchaseId b)) db = Some purchase
      \<and> checkout_for_purchase (siteUrl env req b) ans purchase (db, st) = (resp, db1, st1))"
  using assms
  by (auto simp: create_checkout_session_def gateway_ready_def jsonResponse_def
      split: if_splits option.splits)

text \<open>
  C9. When a call of the Checkout Session Gateway for an order has returned a session URL
  and the session is still open at the provider, a second call for the same order
  returns the same URL and session id with reused = true; it creates no session at the
  provider and writes nothing to the database.
\<close>

theorem second_gateway_call_reuses_session:
  assumes first: "create_checkout_session env ans req (db, st) = (resp, db1, st1)"
    and ok: "status resp = 200" "body resp = SessionJson url sid reused"
    and sid: "sid \<noteq> []"
    and still_open: "retrieve_session st2 sid = Some s2" "ss_status s2 = Some ''open''"
      "ss_url s2 = Some url"
  shows "create_checkout_session env ans2 req (db1, st2)
           = (jsonResponse 200 (SessionJson url sid True), db1, st2)"
proof -
  from gateway_ok_cases[OF first ok] obtain b purchase where
    r: "gateway_ready env req" and b: "g_json req = Some b" "truthy (b_purchaseId b)"
    and p1: "select_single (the (b_purchaseId b)) db = Some purchase"
    and cp: "checkout_for_purchase (siteUrl env req b) ans purchase (db, st) = (resp, db1, st1)"
    by blast
  from checkout_for_purchase_ok[OF cp ok] have
    p: "select_single (the (b_purchaseId b)) db = Some purchase"
      "payment_status purchase \<noteq> Paid" "payment_status purchase \<noteq> Refunded"
    and u: "url \<noteq> []"
    and c: "(reused \<and> db1 = db \<and> truthy (stripe_checkout_session_id purchase)
            \<and> sid = the (stripe_checkout_session_id purchase))
          \<or> (\<not> reused
              \<and> db1 = update_where (\<lambda>r. pur_id r = pur_id purchase)
                                (\<lambda>r. r\<lparr> stripe_checkout_session_id := Some sid,
                                          payment_status := Pending \<rparr>) db)"
    using p1 by blast+
  have tu: "truthy (ss_url s2)" using still_open(3) u by (simp add: truthy_def)
  from c show ?thesis
  proof
    assume a: "reused \<and> db1 = db \<and> truthy (stripe_checkout_session_id purchase)
            \<and> sid = the (stripe_checkout_session_id purchase)"
    then have "retrieve_session st2 (the (stripe_checkout_session_id purchase)) = Some s2"
      using still_open(1) by simp
    from gateway_reuse[OF r b p(1) p(2) p(3) _ this still_open(2) tu, of ans2] a still_open(3)
    show ?thesis by simp
  next
    assume a: "\<not> reused
              \<and> db1 = update_where (\<lambda>r. pur_id r = pur_id purchase)
                                (\<lambda>r. r\<lparr> stripe_checkout_session_id := Some sid,
                                          payment_status := Pending \<rparr>) db"
    let ?upd = "\<lambda>r. r\<lparr> stripe_checkout_session_id := Some sid, payment_status := Pending \<rparr>"
    have pid: "pur_id purchase = the (b_purchaseId b)"
      using select_single_mem[OF p(1)] by simp
    have s1: "select_single (the (b_purchaseId b)) db1 = Some (?upd purchase)"
      using a select_single_update[OF p(1), of ?upd] pid by simp
    have "retrieve_session st2 (the (stripe_checkout_session_id (?upd purchase))) = Some s2"
      using still_open(1) by simp
    from gateway_reuse[OF r b s1 _ _ _ this still_open(2) tu, of ans2] sid still_open(3)
    show ?thesis by (simp add: truthy_def)
  qed
qed


lemma first_call_example:
  "create_checkout_session example_gateway_env (example_answers ''cs_1'') example_gateway_request
      ([example_purchase], [])
     = (jsonResponse 200 (SessionJson ''https://pay.example.org/cs_1'' ''cs_1'' False),
        [example_purchase\<lparr> stripe_checkout_session_id := Some ''cs_1'' \<rparr>], [example_session])"
  by (simp add: create_checkout_session_def checkout_for_purchase_def create_new_session_def
      example_gateway_env_def example_answers_def example_gateway_request_def
      example_purchase_def example_session_def truthy_def select_single_def update_where_def
      store_session_def amountInCents_def siteUrl_def jsonResponse_def)

theorem second_gateway_call_reuses_session_witness:
  "create_checkout_session example_gateway_env (example_answers ''cs_1'') example_gateway_request
      ([example_purchase], [])
     = (jsonResponse 200 (SessionJson ''https://pay.example.org/cs_1'' ''cs_1'' False),
        [example_purchase\<lparr> stripe_checkout_session_id := Some ''cs_1'' \<rparr>], [example_session])
   \<and> retrieve_session [example_session] ''cs_1'' = Some example_session
   \<and> ss_status example_session = Some ''open''
   \<and> ss_url example_session = Some ''https://pay.example.org/cs_1''
   \<and> create_checkout_session example_gateway_env (example_answers ''cs_2'') example_gateway_request
        ([example_purchase\<lparr> stripe_checkout_session_id := Some ''cs_1'' \<rparr>], [example_session])
     = (jsonResponse 200 (SessionJson ''https://pay.example.org/cs_1'' ''cs_1'' True),
        [example_purchase\<lparr> stripe_checkout_session_id := Some ''cs_1'' \<rparr>], [example_session])"
proof -
  have h2: "status (jsonResponse 200 (SessionJson ''https://pay.example.org/cs_1'' ''cs_1'' False)) = 200"
    by (simp add: jsonResponse_def)
  have h3: "body (jsonResponse 200 (SessionJson ''https://pay.example.org/cs_1'' ''cs_1'' False))
     = SessionJson ''https://pay.example.org/cs_1'' ''cs_1'' False"
    by (simp add: jsonResponse_def)
  have h4: "''cs_1'' \<noteq> []" by simp
  have h5: "retrieve_session [example_session] ''cs_1'' = Some example_session"
    by (simp add: retrieve_session_def example_session_def)
  have h6: "ss_status example_session = Some ''open''"
    by (simp add: example_session_def)
  have h7: "ss_url example_session = Some ''https://pay.example.org/cs_1''"
    by (simp add: example_session_def)
  from second_gateway_call_reuses_session[OF first_call_example h2 h3 h4 h5 h6 h7, of "example_answers ''cs_2''"]
  show ?thesis using first_call_example h5 h6 h7 by simp
qed

text \<open>
  C10. When the gateway is called for an order (neither paid nor refunded) that
  references an external session that is still open, it answers with the existing URL
  and reused = true and performs no write: the table of purchases, and with it every
  field of the purchase row, is unchanged, and so is the provider's set of sessions.
\<close>

theorem reuse_branch_writes_nothing:
  assumes "gateway_ready env req"
    and "g_json req = Some b" and "truthy (b_purchaseId b)"
    and "select_single (the (b_purchaseId b)) db = Some purchase"
    and "payment_status purchase \<noteq> Paid" and "payment_status purchase \<noteq> Refunded"
    and "truthy (stripe_checkout_session_id purchase)"
    and "retrieve_session st (the (stripe_checkout_session_id purchase)) = Some existing"
    and "ss_status existing = Some ''open''" and "truthy (ss_url existing)"
    and "create_checkout_session env ans req (db, st) = (resp, db', st')"
  shows "resp = jsonResponse 200 (SessionJson (the (ss_url existing)) (ss_id existing) True)
         \<and> db' = db \<and> st' = st
         \<and> select_single (the (b_purchaseId b)) db' = Some purchase"
  using assms gateway_reuse[OF assms(1-10), of ans] retrieve_session_id[OF assms(8)]
  by simp

theorem reuse_branch_writes_nothing_witness:
  "gateway_ready example_gateway_env example_gateway_request
   \<and> g_json example_gateway_request
       = Some \<lparr> b_purchaseId = Some ''p1'', b_returnUrl = Some ''https://shop.example.org'' \<rparr>
   \<and> select_single ''p1'' [referencing_purchase] = Some referencing_purchase
   \<and> payment_status referencing_purchase = Pending
   \<and> stripe_checkout_session_id referencing_purchase = Some ''cs_1''
   \<and> retrieve_session [example_session] ''cs_1'' = Some example_session
   \<and> ss_status example_session = Some ''open''
   \<and> ss_url example_session = Some ''https://pay.example.org/cs_1''
   \<and> create_checkout_session example_gateway_env (example_answers ''cs_2'')
        example_gateway_request ([referencing_purchase], [example_session])
     = (jsonResponse 200 (SessionJson ''https://pay.example.org/cs_1'' ''cs_1'' True),
        [referencing_purchase], [example_session])"
proof -
  let ?b = "\<lparr> b_purchaseId = Some ''p1'', b_returnUrl = Some ''https://shop.example.org'' \<rparr>"
  have h1: "gateway_ready example_gateway_env example_gateway_request"
    by (simp add: gateway_ready_def example_gateway_env_def example_gateway_request_def truthy_def)
  have h2: "g_json example_gateway_request = Some ?b"
    by (simp add: example_gateway_request_def)
  have h3: "truthy (b_purchaseId ?b)" by (simp add: truthy_def)
  have h4: "select_single (the (b_purchaseId ?b)) [referencing_purchase] = Some referencing_purchase"
    by (simp add: select_single_def referencing_purchase_def example_purchase_def)
  have h5: "payment_status referencing_purchase \<noteq> Paid"
    and h6: "payment_status referencing_purchase \<noteq> Refunded"
    and h5': "payment_status referencing_purchase = Pending"
    by (simp_all add: referencing_purchase_def example_purchase_def)
  have h7: "truthy (stripe_checkout_session_id referencing_purchase)"
    and h7': "stripe_checkout_session_id referencing_purchase = Some ''cs_1''"
    by (simp_all add: referencing_purchase_def truthy_def)
  have h8: "retrieve_session [example_session]
              (the (stripe_checkout_session_id referencing_purchase)) = Some example_session"
    by (simp add: retrieve_session_def example_session_def referencing_purchase_def)
  have h9: "ss_status example_session = Some ''open''"
    and h10: "truthy (ss_url example_session)"
    and h10': "ss_url example_session = Some ''https://pay.example.org/cs_1''"
    by (simp_all add: example_session_def truthy_def)
  have h11: "create_checkout_session example_gateway_env (example_answers ''cs_2'')
        example_gateway_request ([referencing_purchase], [example_session])
     = (jsonResponse 200 (SessionJson ''https://pay.example.org/cs_1'' ''cs_1'' True),
        [referencing_purchase], [example_session])"
    using gateway_reuse[OF h1 h2 h3 h4 h5 h6 h7 h8 h9 h10, of "example_answers ''cs_2''"]
      h7' h10' by simp
  from reuse_branch_writes_nothing[OF h1 h2 h3 h4 h5 h6 h7 h8 h9 h10 h11]
  show ?thesis using h1 h2 h4 h5' h7' h8 h9 h10' h11 by simp
qed

section \<open>Payment Reconciliation Listener: results\<close>

lemma webhook_accepted:
  "webhook_accepts env ce req ev \<Longrightarrow>
     stripe_webhook env ce now None req db
       = (jsonResponse 200 ReceivedJson, on_refunded ev (on_failed ev (on_completed now ev db)))"
  by (simp add: webhook_accepts_def stripe_webhook_def)

lemma webhook_cases:
  "snd (stripe_webhook env ce now fault req db) = db
   \<or> (\<exists>ev. snd (stripe_webhook env ce now fault req db)
          = on_refunded ev (on_failed ev (on_completed now ev db)))"
  by (auto simp: stripe_webhook_def split: sum.splits)

lemma length_update_where [simp]: "length (update_where sel upd db) = length db"
  by (simp add: update_where_def)

lemma nth_update_where:
  "i < length db \<Longrightarrow> update_where sel upd db ! i = (if sel (db ! i) then upd (db ! i) else db ! i)"
  by (simp add: update_where_def)

lemma completed_twice:
  assumes "ev_type ev = ''checkout.session.completed''"
  shows "on_refunded ev (on_failed ev (on_completed t ev db)) = on_completed t ev db"
   and "on_completed t2 ev (on_completed t1 ev db) = on_completed t2 ev db"
  using assms by (simp_all add: on_refunded_def on_failed_def on_completed_def update_where_def)

lemma on_events_paid:
  assumes "i < length db" "payment_status (db ! i) = Paid"
  shows "length (on_refunded ev (on_failed ev (on_completed now ev db))) = length db"
    "pur_id (on_refunded ev (on_failed ev (on_completed now ev db)) ! i) = pur_id (db ! i)"
    "total_paid (on_refunded ev (on_failed ev (on_completed now ev db)) ! i) = total_paid (db ! i)"
    "payment_status (on_refunded ev (on_failed ev (on_completed now ev db)) ! i) \<in> {Paid, Refunded}"
  using assms
  by (simp_all add: on_refunded_def on_failed_def on_completed_def nth_update_where)


lemma select_single_unique:
  assumes "select_single pid rows = Some r" "x \<in> set rows" "pur_id x = pid"
  shows "x = r"
proof -
  have f: "filter (\<lambda>r. pur_id r = pid) rows = [r]"
    using assms(1) by (auto simp: select_single_def split: list.splits)
  have "x \<in> set (filter (\<lambda>r. pur_id r = pid) rows)"
    using assms(2,3) by simp
  then show ?thesis unfolding f by simp
qed

lemma create_new_session_db:
  "fst (snd (create_new_session site ans purchase (db, st))) = db
   \<or> (\<exists>sid. fst (snd (create_new_session site ans purchase (db, st)))
         = store_session purchase sid db)"
  by (auto simp: create_new_session_def Let_def store_session_def split: option.splits)

lemma checkout_for_purchase_db:
  "fst (snd (checkout_for_purchase site ans purchase (db, st))) = db
   \<or> (payment_status purchase \<noteq> Paid \<and> payment_status purchase \<noteq> Refunded
      \<and> (\<exists>sid. fst (snd (checkout_for_purchase site ans purchase (db, st)))
         = store_session purchase sid db))"
  using create_new_session_db[of site ans purchase db st]
  by (auto simp: checkout_for_purchase_def split: option.splits)

lemma gateway_db:
  "fst (snd (create_checkout_session env ans req (db, st))) = db
   \<or> (\<exists>purchase sid. select_single (pur_id purchase) db = Some purchase
        \<and> payment_status purchase \<noteq> Paid \<and> payment_status purchase \<noteq> Refunded
        \<and> fst (snd (create_checkout_session env ans req (db, st)))
             = store_session purchase sid db)"
proof (cases "g_method req = ''POST'' \<and> truthy (g_supabaseUrl env) \<and> truthy (g_serviceRoleKey env)
     \<and> truthy (g_stripeSecretKey env) \<and> g_json req \<noteq> None
     \<and> truthy (b_purchaseId (the (g_json req)))
     \<and> select_single (the (b_purchaseId (the (g_json req)))) db \<noteq> None")
  case False
  then have "fst (snd (create_checkout_session env ans req (db, st))) = db"
    by (auto simp: create_checkout_session_def split: option.splits)
  then show ?thesis ..
next
  case True
  then obtain b purchase where b: "g_json req = Some b"
    and p: "select_single (the (b_purchaseId b)) db = Some purchase"
    by auto
  have e: "create_checkout_session env ans req (db, st)
        = checkout_for_purchase (siteUrl env req b) ans purchase (db, st)"
    using True b p by (simp add: create_checkout_session_def)
  have "select_single (pur_id purchase) db = Some purchase"
    using p select_single_mem[OF p] by simp
  then show ?thesis
    using checkout_for_purchase_db[of "siteUrl env req b" ans purchase db st] e by auto
qed

lemma gateway_row:
  assumes "i < length db"
  shows "length (fst (snd (create_checkout_session env ans req (db, st)))) = length db
    \<and> (fst (snd (create_checkout_session env ans req (db, st))) ! i \<noteq> db ! i \<longrightarrow>
         payment_status (db ! i) \<noteq> Paid \<and> payment_status (db ! i) \<noteq> Refunded
         \<and> payment_status (fst (snd (create_checkout_session env ans req (db, st))) ! i) = Pending)"
proof -
  let ?db' = "fst (snd (create_checkout_session env ans req (db, st)))"
  from gateway_db[of env ans req db st] show ?thesis
  proof
    assume "?db' = db" then show ?thesis by simp
  next
    assume "\<exists>purchase sid. select_single (pur_id purchase) db = Some purchase
        \<and> payment_status purchase \<noteq> Paid \<and> payment_status purchase \<noteq> Refunded
        \<and> ?db' = store_session purchase sid db"
    then obtain purchase sid where s: "select_single (pur_id purchase) db = Some purchase"
      and np: "payment_status purchase \<noteq> Paid" "payment_status purchase \<noteq> Refunded"
      and d: "?db' = store_session purchase sid db" by blast
    have "db ! i = purchase" if "pur_id (db ! i) = pur_id purchase"
      using select_single_unique[OF s _ that] assms by simp
    then show ?thesis
      using assms np unfolding d store_session_def
      by (auto simp: nth_update_where)
  qed
qed

lemma on_events_pending:
  assumes "i < length db" "payment_status (db ! i) = Pending"
    "stripe_payment_intent_id (db ! i) = None"
  shows "payment_status (on_refunded ev (on_failed ev (on_completed now ev db)) ! i)
           \<in> {Pending, Paid, Failed}"
  using assms
  by (simp add: on_refunded_def on_failed_def on_completed_def nth_update_where intent_id_def
      truthy_def split: payment_intent_ref.splits)

lemma completed_delivery:
  "stripe_webhook example_webhook_env example_construct t None
        (example_delivery ''POST'' (Some ''sig-ok'') ''checkout.session.completed'') [row]
     = (jsonResponse 200 ReceivedJson,
        [if pur_id row = ''p1''
         then row\<lparr> payment_status := Paid, stripe_checkout_session_id := Some ''cs_1'',
                   stripe_payment_intent_id := Some ''pi_1'', paid_at := Some t \<rparr>
         else row])"
  by (simp add: stripe_webhook_def example_webhook_env_def example_construct_def
      example_delivery_def truthy_def touches_purchases_def example_event_def
      on_completed_def on_failed_def on_refunded_def update_where_def intent_id_def)

text \<open>
  C6, as the code has it. A request whose signature is missing or refused changes no
  persisted order, whatever else the request holds; and unless it is an OPTIONS request,
  which the handler answers with 200 ok before any other check, it is rejected with a
  non-2xx response whose body is a structured error.
\<close>

theorem rejected_signature_changes_nothing:
  assumes "signature_rejected env constructEvent req"
  shows "snd (stripe_webhook env constructEvent now fault req db) = db
    \<and> (w_method req \<noteq> ''OPTIONS'' \<longrightarrow>
          \<not> is_2xx (fst (stripe_webhook env constructEvent now fault req db))
          \<and> is_error_json (fst (stripe_webhook env constructEvent now fault req db)))"
  using assms
  by (auto simp: signature_rejected_def stripe_webhook_def truthy_def is_2xx_def is_error_json_def
      jsonResponse_def isl_def split: option.splits sum.splits)

theorem rejected_signature_changes_nothing_witness:
  "signature_rejected example_webhook_env example_construct
      (example_delivery ''POST'' (Some ''forged'') ''checkout.session.completed'')
   \<and> stripe_webhook example_webhook_env example_construct ''2026-01-01T10:00:00.000Z'' None
        (example_delivery ''POST'' (Some ''forged'') ''checkout.session.completed'')
        [example_purchase]
      = (jsonResponse 400
           (ErrorJson ''No signatures found matching the expected signature for payload.''),
         [example_purchase])"
proof -
  have h: "signature_rejected example_webhook_env example_construct
      (example_delivery ''POST'' (Some ''forged'') ''checkout.session.completed'')"
    by (simp add: signature_rejected_def example_webhook_env_def example_construct_def
        example_delivery_def)
  have e: "stripe_webhook example_webhook_env example_construct ''2026-01-01T10:00:00.000Z'' None
        (example_delivery ''POST'' (Some ''forged'') ''checkout.session.completed'')
        [example_purchase]
      = (jsonResponse 400
           (ErrorJson ''No signatures found matching the expected signature for payload.''),
         [example_purchase])"
    by (simp add: stripe_webhook_def example_webhook_env_def example_construct_def
        example_delivery_def truthy_def)
  from rejected_signature_changes_nothing[OF h, of "''2026-01-01T10:00:00.000Z''" None "[example_purchase]"] h e
  show ?thesis by simp
qed

text \<open>
  C6 as stated fails for a request with the method OPTIONS: without any signature it is
  answered with status 200.
\<close>

theorem options_request_without_signature_gets_200:
  "signature_rejected example_webhook_env example_construct
      (example_delivery ''OPTIONS'' None [])
   \<and> fst (stripe_webhook example_webhook_env example_construct ''2026-01-01T10:00:00.000Z'' None
        (example_delivery ''OPTIONS'' None []) [example_purchase])
      = \<lparr> status = 200, body = Plain ''ok'' \<rparr>
   \<and> is_2xx (fst (stripe_webhook example_webhook_env example_construct
        ''2026-01-01T10:00:00.000Z'' None (example_delivery ''OPTIONS'' None [])
        [example_purchase]))"
  by (simp add: signature_rejected_def example_delivery_def stripe_webhook_def is_2xx_def)

text \<open>
  C5, as the code has it. A second delivery of checkout.session.completed for the same
  order is acknowledged with 200 and is not an error; the order is paid after it; the
  second delivery writes the row again, so paid_at is the clock reading of the latest
  delivery and the table after both deliveries is the one the second delivery alone
  produces. The row is left as the first delivery wrote it when both deliveries read the
  same clock value.
\<close>

theorem duplicate_completed_is_last_writer_wins:
  assumes "webhook_accepts env ce req ev"
    and "ev_type ev = ''checkout.session.completed''"
    and "truthy (metadata_purchase_id (ev_object ev))"
  shows "(let (r1, db1) = stripe_webhook env ce t1 None req db;
              (r2, db2) = stripe_webhook env ce t2 None req db1
          in r2 = jsonResponse 200 ReceivedJson
             \<and> db2 = snd (stripe_webhook env ce t2 None req db)
             \<and> (\<forall>row\<in>set db2. pur_id row = the (metadata_purchase_id (ev_object ev)) \<longrightarrow>
                    payment_status row = Paid \<and> paid_at row = Some t2)
             \<and> (t1 = t2 \<longrightarrow> db2 = db1))"
proof -
  have w: "stripe_webhook env ce t None req d = (jsonResponse 200 ReceivedJson, on_completed t ev d)"
    for t d
    using webhook_accepted[OF assms(1)] completed_twice(1)[OF assms(2)] by simp
  have rows: "\<forall>row\<in>set (on_completed t2 ev db).
      pur_id row = the (metadata_purchase_id (ev_object ev)) \<longrightarrow>
        payment_status row = Paid \<and> paid_at row = Some t2"
    using assms(2,3) by (auto simp: on_completed_def update_where_def)
  show ?thesis
    using rows by (simp add: w completed_twice(2)[OF assms(2)])
qed

theorem duplicate_completed_is_last_writer_wins_witness:
  "webhook_accepts example_webhook_env example_construct
      (example_delivery ''POST'' (Some ''sig-ok'') ''checkout.session.completed'')
      (example_event ''checkout.session.completed'')
   \<and> ev_type (example_event ''checkout.session.completed'') = ''checkout.session.completed''
   \<and> truthy (metadata_purchase_id (ev_object (example_event ''checkout.session.completed'')))
   \<and> (let (r1, db1) = stripe_webhook example_webhook_env example_construct
                          ''2026-01-01T10:00:00.000Z'' None
                          (example_delivery ''POST'' (Some ''sig-ok'') ''checkout.session.completed'')
                          [example_purchase];
           (r2, db2) = stripe_webhook example_webhook_env example_construct
                          ''2026-01-01T10:05:00.000Z'' None
                          (example_delivery ''POST'' (Some ''sig-ok'') ''checkout.session.completed'')
                          db1
       in r2 = jsonResponse 200 ReceivedJson
          \<and> map payment_status db2 = [Paid]
          \<and> map paid_at db2 = [Some ''2026-01-01T10:05:00.000Z''])
   \<and> (let (r1, db1) = stripe_webhook example_webhook_env example_construct
                          ''2026-01-01T10:00:00.000Z'' None
                          (example_delivery ''POST'' (Some ''sig-ok'') ''checkout.session.completed'')
                          [example_purchase];
           (r2, db2) = stripe_webhook example_webhook_env example_construct
                          ''2026-01-01T10:00:00.000Z'' None
                          (example_delivery ''POST'' (Some ''sig-ok'') ''checkout.session.completed'')
                          db1
       in db2 = db1 \<and> (\<exists>row\<in>set db2. pur_id row = ''p1''))"
proof -
  have h1: "webhook_accepts example_webhook_env example_construct
      (example_delivery ''POST'' (Some ''sig-ok'') ''checkout.session.completed'')
      (example_event ''checkout.session.completed'')"
    by (simp add: webhook_accepts_def example_webhook_env_def example_construct_def
        example_delivery_def truthy_def)
  have h2: "ev_type (example_event ''checkout.session.completed'') = ''checkout.session.completed''"
    by (simp add: example_event_def)
  have h3: "truthy (metadata_purchase_id (ev_object (example_event ''checkout.session.completed'')))"
    by (simp add: example_event_def truthy_def)
  from duplicate_completed_is_last_writer_wins[OF h1 h2 h3,
      of "''2026-01-01T10:00:00.000Z''" "[example_purchase]" "''2026-01-01T10:05:00.000Z''"]
    duplicate_completed_is_last_writer_wins[OF h1 h2 h3,
      of "''2026-01-01T10:00:00.000Z''" "[example_purchase]" "''2026-01-01T10:00:00.000Z''"]
    h1 h2 h3
  show ?thesis
    by (simp add: completed_delivery example_purchase_def)
qed

text \<open>
  C5 as stated fails: delivered at 10:00 and again at 10:05, the event leaves paid_at at
  10:00 after the first delivery and at 10:05 after the second.
\<close>

theorem duplicate_completed_rewrites_paid_at:
  "map paid_at (snd (stripe_webhook example_webhook_env example_construct
        ''2026-01-01T10:00:00.000Z'' None
        (example_delivery ''POST'' (Some ''sig-ok'') ''checkout.session.completed'')
        [example_purchase])) = [Some ''2026-01-01T10:00:00.000Z'']
   \<and> map paid_at (snd (stripe_webhook example_webhook_env example_construct
        ''2026-01-01T10:05:00.000Z'' None
        (example_delivery ''POST'' (Some ''sig-ok'') ''checkout.session.completed'')
        (snd (stripe_webhook example_webhook_env example_construct
        ''2026-01-01T10:00:00.000Z'' None
        (example_delivery ''POST'' (Some ''sig-ok'') ''checkout.session.completed'')
        [example_purchase])))) = [Some ''2026-01-01T10:05:00.000Z'']"
  by (simp add: completed_delivery example_purchase_def)

lemma failure_events_keep_paid_rows:
  assumes "i < length db" and "payment_status (db ! i) = Paid"
    and "ev_type ev = ''checkout.session.async_payment_failed''
         \<or> ev_type ev = ''checkout.session.expired''"
  shows "on_refunded ev (on_failed ev (on_completed now ev db)) ! i = db ! i"
  using assms
  by (auto simp: on_refunded_def on_failed_def on_completed_def nth_update_where)

lemma webhook_accepted_cases:
  "webhook_accepts env ce req ev \<Longrightarrow>
     snd (stripe_webhook env ce now fault req db) = db
     \<or> snd (stripe_webhook env ce now fault req db)
          = on_refunded ev (on_failed ev (on_completed now ev db))"
  by (auto simp: webhook_accepts_def stripe_webhook_def)

text \<open>
  C3, as the code has it. Each webhook delivery and each gateway call is taken as one
  step that runs alone: nothing else writes to the table between the gateway's read of
  the purchase row and its update. In one such step a paid order stays paid or becomes
  refunded, with its id and total_paid unchanged; a delivery of a payment-failed or
  session-expired event leaves the whole row of a paid order as it is; a pending order
  without a payment intent stays pending or becomes paid or failed under a webhook
  delivery; and the gateway changes no paid or refunded order: a row it changes was
  pending or failed and is pending afterwards.
\<close>

theorem paid_order_stays_paid_or_refunded:
  assumes "i < length db"
  shows "(payment_status (db ! i) = Pending \<and> stripe_payment_intent_id (db ! i) = None \<longrightarrow>
           payment_status (snd (stripe_webhook env ce now fault req db) ! i)
             \<in> {Pending, Paid, Failed})
     \<and> (payment_status (db ! i) = Paid \<longrightarrow>
           (let db' = snd (stripe_webhook env ce now fault req db)
            in length db' = length db \<and> pur_id (db' ! i) = pur_id (db ! i)
               \<and> total_paid (db' ! i) = total_paid (db ! i)
               \<and> payment_status (db' ! i) \<in> {Paid, Refunded}))
     \<and> (payment_status (db ! i) = Paid \<and> webhook_accepts env ce req ev
          \<and> (ev_type ev = ''checkout.session.async_payment_failed''
               \<or> ev_type ev = ''checkout.session.expired'') \<longrightarrow>
           snd (stripe_webhook env ce now fault req db) ! i = db ! i)
     \<and> (let db' = fst (snd (create_checkout_session genv ans greq (db, st)))
        in length db' = length db
           \<and> (db' ! i \<noteq> db ! i \<longrightarrow>
                 payment_status (db ! i) \<noteq> Paid \<and> payment_status (db ! i) \<noteq> Refunded
                 \<and> payment_status (db' ! i) = Pending))"
proof -
  have "length db' = length db \<and> pur_id (db' ! i) = pur_id (db ! i)
               \<and> total_paid (db' ! i) = total_paid (db ! i)
               \<and> payment_status (db' ! i) \<in> {Paid, Refunded}"
    if paid: "payment_status (db ! i) = Paid" and d: "db' = snd (stripe_webhook env ce now fault req db)"
    for db'
  proof -
    from webhook_cases[of env ce now fault req db]
    consider "db' = db" | ev where "db' = on_refunded ev (on_failed ev (on_completed now ev db))"
      unfolding d by blast
    then show ?thesis
    proof cases
      case 1
      then show ?thesis using paid by simp
    next
      case 2
      then show ?thesis using on_events_paid[OF assms paid, of ev now] by simp
    qed
  qed
  moreover have "payment_status (snd (stripe_webhook env ce now fault req db) ! i)
             \<in> {Pending, Paid, Failed}"
    if pending: "payment_status (db ! i) = Pending" "stripe_payment_intent_id (db ! i) = None"
  proof -
    from webhook_cases[of env ce now fault req db]
    consider "snd (stripe_webhook env ce now fault req db) = db"
      | ev where "snd (stripe_webhook env ce now fault req db)
                    = on_refunded ev (on_failed ev (on_completed now ev db))"
      by blast
    then show ?thesis
    proof cases
      case 1
      then show ?thesis using pending by simp
    next
      case 2
      then show ?thesis using on_events_pending[OF assms pending, of ev now] by simp
    qed
  qed
  moreover have "snd (stripe_webhook env ce now fault req db) ! i = db ! i"
    if "payment_status (db ! i) = Paid" "webhook_accepts env ce req ev"
      "ev_type ev = ''checkout.session.async_payment_failed''
       \<or> ev_type ev = ''checkout.session.expired''"
    using webhook_accepted_cases[OF that(2), of now fault db]
      failure_events_keep_paid_rows[OF assms that(1,3), of now]
    by auto
  ultimately show ?thesis
    using gateway_row[OF assms, of genv ans greq st] by (simp add: Let_def)
qed

lemma paid_order_examples:
  "snd (stripe_webhook example_webhook_env example_construct ''2026-01-01T10:05:00.000Z'' None
        (example_delivery ''POST'' (Some ''sig-ok'') ''checkout.session.expired'')
        [paid_purchase]) = [paid_purchase]"
  "map payment_status (snd (stripe_webhook example_webhook_env example_construct
        ''2026-01-01T10:05:00.000Z'' None
        (example_delivery ''POST'' (Some ''sig-ok'') ''charge.refunded'')
        [paid_purchase])) = [Refunded]"
  by (simp_all add: stripe_webhook_def example_webhook_env_def example_construct_def
      example_delivery_def truthy_def touches_purchases_def example_event_def
      on_completed_def on_failed_def on_refunded_def update_where_def intent_id_def
      paid_purchase_def)

lemma gateway_on_paid_example:
  "fst (snd (create_checkout_session example_gateway_env (example_answers ''cs_2'')
        example_gateway_request ([paid_purchase], []))) = [paid_purchase]"
  by (simp add: create_checkout_session_def checkout_for_purchase_def
      example_gateway_env_def example_gateway_request_def
      example_purchase_def paid_purchase_def truthy_def select_single_def)

lemma gateway_on_failed_example:
  "fst (snd (create_checkout_session example_gateway_env (example_answers ''cs_2'')
        example_gateway_request ([failed_purchase], [])))
     = [example_purchase\<lparr> stripe_checkout_session_id := Some ''cs_2'' \<rparr>]"
  by (simp add: create_checkout_session_def checkout_for_purchase_def create_new_session_def
      example_gateway_env_def example_answers_def example_gateway_request_def
      example_purchase_def failed_purchase_def truthy_def select_single_def update_where_def
      store_session_def amountInCents_def siteUrl_def jsonResponse_def)

theorem paid_order_stays_paid_or_refunded_witness:
  "(0 < length [paid_purchase] \<and> payment_status ([paid_purchase] ! 0) = Paid
    \<and> snd (stripe_webhook example_webhook_env example_construct ''2026-01-01T10:05:00.000Z''
         None (example_delivery ''POST'' (Some ''sig-ok'') ''checkout.session.expired'')
         [paid_purchase]) = [paid_purchase]
    \<and> map payment_status (snd (stripe_webhook example_webhook_env example_construct
         ''2026-01-01T10:05:00.000Z'' None
         (example_delivery ''POST'' (Some ''sig-ok'') ''charge.refunded'')
         [paid_purchase])) = [Refunded]
    \<and> fst (snd (create_checkout_session example_gateway_env (example_answers ''cs_2'')
         example_gateway_request ([paid_purchase], []))) = [paid_purchase])
   \<and> (webhook_accepts example_webhook_env example_construct
         (example_delivery ''POST'' (Some ''sig-ok'') ''checkout.session.expired'')
         (example_event ''checkout.session.expired'')
      \<and> ev_type (example_event ''checkout.session.expired'') = ''checkout.session.expired''
      \<and> snd (stripe_webhook example_webhook_env example_construct
           ''2026-01-01T10:05:00.000Z'' None
           (example_delivery ''POST'' (Some ''sig-ok'') ''checkout.session.expired'')
           [paid_purchase]) ! 0 = [paid_purchase] ! 0)
   \<and> (payment_status ([example_purchase] ! 0) = Pending
      \<and> stripe_payment_intent_id ([example_purchase] ! 0) = None
      \<and> payment_status (snd (stripe_webhook example_webhook_env example_construct
           ''2026-01-01T10:00:00.000Z'' None
           (example_delivery ''POST'' (Some ''sig-ok'') ''checkout.session.completed'')
           [example_purchase]) ! 0) = Paid)
   \<and> (payment_status ([failed_purchase] ! 0) = Failed
      \<and> fst (snd (create_checkout_session example_gateway_env (example_answers ''cs_2'')
           example_gateway_request ([failed_purchase], []))) ! 0 \<noteq> [failed_purchase] ! 0
      \<and> payment_status (fst (snd (create_checkout_session example_gateway_env
           (example_answers ''cs_2'') example_gateway_request ([failed_purchase], []))) ! 0)
          = Pending)"
proof -
  have h: "0 < length [r]" for r :: Purchase by simp
  have p: "payment_status ([paid_purchase] ! 0) = Paid" by (simp add: paid_purchase_def)
  have q: "payment_status ([example_purchase] ! 0) = Pending"
    "stripe_payment_intent_id ([example_purchase] ! 0) = None"
    by (simp_all add: example_purchase_def)
  have f: "payment_status ([failed_purchase] ! 0) = Failed"
    "fst (snd (create_checkout_session example_gateway_env (example_answers ''cs_2'')
           example_gateway_request ([failed_purchase], []))) ! 0 \<noteq> [failed_purchase] ! 0"
    unfolding gateway_on_failed_example
    by (simp_all add: failed_purchase_def example_purchase_def)
  have c: "payment_status (snd (stripe_webhook example_webhook_env example_construct
           ''2026-01-01T10:00:00.000Z'' None
           (example_delivery ''POST'' (Some ''sig-ok'') ''checkout.session.completed'')
           [example_purchase]) ! 0) = Paid"
    by (simp add: completed_delivery example_purchase_def)
  have a: "webhook_accepts example_webhook_env example_construct
         (example_delivery ''POST'' (Some ''sig-ok'') ''checkout.session.expired'')
         (example_event ''checkout.session.expired'')"
    "ev_type (example_event ''checkout.session.expired'') = ''checkout.session.expired''"
    by (simp_all add: webhook_accepts_def example_webhook_env_def example_construct_def
        example_delivery_def example_event_def truthy_def)
  note t = paid_order_stays_paid_or_refunded[OF h,
      where env = example_webhook_env and ce = example_construct and fault = None
        and genv = example_gateway_env and ans = "example_answers ''cs_2''"
        and greq = example_gateway_request and st = "[]"]
  from t[of paid_purchase "''2026-01-01T10:05:00.000Z''"
        "example_delivery ''POST'' (Some ''sig-ok'') ''checkout.session.expired''"
        "example_event ''checkout.session.expired''"]
    t[of example_purchase "''2026-01-01T10:00:00.000Z''"
        "example_delivery ''POST'' (Some ''sig-ok'') ''checkout.session.completed''"
        "example_event ''checkout.session.completed''"]
    t[of failed_purchase "''2026-01-01T10:00:00.000Z''"
        "example_delivery ''POST'' (Some ''sig-ok'') ''checkout.session.completed''"
        "example_event ''checkout.session.completed''"]
    p q f c a paid_order_examples gateway_on_paid_example
  show ?thesis by (simp add: Let_def)
qed

text \<open>
  C3 as stated fails: a gateway call for a failed order creates a new session and sets
  the order back to pending.
\<close>

theorem gateway_resets_failed_to_pending:
  "payment_status failed_purchase = Failed
   \<and> map payment_status (fst (snd (create_checkout_session example_gateway_env
        (example_answers ''cs_2'') example_gateway_request ([failed_purchase], []))))
      = [Pending]"
  unfolding gateway_on_failed_example
  by (simp add: failed_purchase_def example_purchase_def)

section \<open>Inventory Reservation Core: results\<close>

lemma find_drop_after_map:
  assumes "\<And>x. drop_id (f x) = drop_id x"
  shows "find (\<lambda>x. drop_id x = did) (map (\<lambda>x. if drop_id x = k then f x else x) xs)
     = map_option (\<lambda>x. if drop_id x = k then f x else x) (find (\<lambda>x. drop_id x = did) xs)"
  by (induction xs) (auto simp: assms)

lemma select_single_new:
  "new_id \<notin> set (map pur_id rows) \<Longrightarrow> pur_id row = new_id \<Longrightarrow>
     select_single new_id (rows @ [row]) = Some row"
proof -
  assume a: "new_id \<notin> set (map pur_id rows)" and b: "pur_id row = new_id"
  have "filter (\<lambda>r. pur_id r = new_id) rows = []"
    using a by (auto simp: filter_empty_conv)
  then show ?thesis by (simp add: select_single_def b)
qed

lemma purchase_drop_item_cases:
  assumes "purchase_drop_item st now new_id ps db = Inr (pid, db')"
  shows "pid = new_id \<and> new_id \<notin> set (map pur_id (purchases db))
     \<and> (\<exists>row. purchases db' = purchases db @ [row] \<and> pur_id row = new_id
           \<and> pur_quantity row = rp_quantity ps \<and> pur_drop_id row = rp_drop_id ps
           \<and> payment_status row = Pending)
     \<and> rp_quantity ps \<le> remaining_of db (rp_drop_id ps)
     \<and> remaining_of db' (rp_drop_id ps) = remaining_of db (rp_drop_id ps) - rp_quantity ps"
proof -
  from assms obtain d where d: "find_drop db (rp_drop_id ps) = Some d"
    by (auto simp: purchase_drop_item_def split: option.splits)
  have g: "approval_status d = APPROVED" "is_live d now" "\<not> quantity_remaining d < rp_quantity ps"
    "new_id \<notin> set (map pur_id (purchases db))"
    using assms d by (auto simp: purchase_drop_item_def split: if_splits)
  have e: "pid = new_id" and db': "db' = db\<lparr> drops :=
                        map (\<lambda>x. if drop_id x = rp_drop_id ps
                                 then x\<lparr> quantity_remaining :=
                                           quantity_remaining x - rp_quantity ps \<rparr>
                                 else x) (drops db),
                      purchases := purchases db @
                        [\<lparr> pur_id = new_id, pur_user_id = rp_user_id ps,
                           customer_name = rp_customer_name ps,
                           customer_email = rp_customer_email ps,
                           pur_drop_id = rp_drop_id ps, pur_drop_name = rp_drop_name ps,
                           pur_quantity = rp_quantity ps,
                           total_paid = st d ps,
                           payment_status = Pending,
                           stripe_checkout_session_id = None,
                           stripe_payment_intent_id = None, paid_at = None,
                           delivery_requested = rp_delivery_requested ps,
                           delivery_address = rp_delivery_address ps,
                           selected_items = rp_selected_items ps,
                           order_notes = rp_order_notes ps,
                           is_bulk = rp_is_bulk ps \<rparr>] \<rparr>"
    using assms d g by (auto simp: purchase_drop_item_def)
  have did: "drop_id d = rp_drop_id ps"
    using d by (auto simp: find_drop_def find_Some_iff)
  have r: "remaining_of db (rp_drop_id ps) = quantity_remaining d"
    using d by (simp add: remaining_of_def)
  have "find_drop db' (rp_drop_id ps)
      = Some (d\<lparr> quantity_remaining := quantity_remaining d - rp_quantity ps \<rparr>)"
    using d did unfolding db' find_drop_def
    by (simp add: find_drop_after_map)
  then have r': "remaining_of db' (rp_drop_id ps) = quantity_remaining d - rp_quantity ps"
    by (simp add: remaining_of_def)
  show ?thesis
    using e g r r' by (simp add: db')
qed

lemma savePurchase_cases:
  assumes "savePurchase st now new_id d pl db = (r, db')"
  shows "(isl r \<and> db' = db)
    \<or> (\<exists>row. r = Inr row \<and> purchases db' = purchases db @ [row]
          \<and> pur_quantity row = p_quantity pl \<and> pur_drop_id row = drop_id d
          \<and> payment_status row = Pending
          \<and> p_quantity pl \<le> remaining_of db (drop_id d)
          \<and> remaining_of db' (drop_id d) = remaining_of db (drop_id d) - p_quantity pl)"
proof (cases "approval_status d \<noteq> APPROVED")
  case True
  then show ?thesis using assms by (auto simp: savePurchase_def)
next
  case False
  show ?thesis
  proof (cases "purchase_drop_item st now new_id (rpcParams d pl) db")
    case (Inl e)
    then show ?thesis using assms False by (auto simp: savePurchase_def)
  next
    case (Inr x)
    obtain pid db1 where x: "x = (pid, db1)" by (cases x)
    from purchase_drop_item_cases[OF Inr[unfolded x]] obtain row where
      c: "pid = new_id" "new_id \<notin> set (map pur_id (purchases db))"
        "purchases db1 = purchases db @ [row]" "pur_id row = new_id"
        "pur_quantity row = p_quantity pl" "pur_drop_id row = drop_id d"
        "payment_status row = Pending"
        "p_quantity pl \<le> remaining_of db (drop_id d)"
        "remaining_of db1 (drop_id d) = remaining_of db (drop_id d) - p_quantity pl"
      by (auto simp: rpcParams_def)
    have "select_single pid (purchases db1) = Some row"
      using c select_single_new[OF c(2) c(4)] by simp
    then have "r = Inr row" "db' = db1"
      using assms False Inr x by (simp_all add: savePurchase_def)
    then show ?thesis using c by simp
  qed
qed

lemma run_attempts_conserves:
  assumes "\<forall>a\<in>set attempts. drop_id (a_drop a) = did \<and> 1 \<le> p_quantity (a_payload a)"
    and "0 \<le> remaining_of db did"
    and "run_attempts st attempts db = (results, db')"
  shows "remaining_of db' did
           = remaining_of db did - sum_list (map pur_quantity (successful results))
    \<and> 0 \<le> remaining_of db' did
    \<and> purchases db' = purchases db @ successful results
    \<and> (\<forall>row\<in>set (successful results).
          pur_drop_id row = did \<and> payment_status row = Pending \<and> 1 \<le> pur_quantity row)"
  using assms
proof (induction attempts arbitrary: db results db')
  case Nil
  then show ?case by simp
next
  case (Cons a as)
  obtain r db1 where s: "savePurchase st (a_now a) (a_new_id a) (a_drop a) (a_payload a) db = (r, db1)"
    by (cases "savePurchase st (a_now a) (a_new_id a) (a_drop a) (a_payload a) db")
  obtain rs db2 where t: "run_attempts st as db1 = (rs, db2)"
    by (cases "run_attempts st as db1")
  have res: "results = r # rs" "db' = db2"
    using Cons.prems(3) s t by simp_all
  have a: "drop_id (a_drop a) = did" "1 \<le> p_quantity (a_payload a)"
    using Cons.prems(1) by simp_all
  have rest: "\<forall>a\<in>set as. drop_id (a_drop a) = did \<and> 1 \<le> p_quantity (a_payload a)"
    using Cons.prems(1) by simp
  from savePurchase_cases[OF s] show ?case
  proof
    assume f: "isl r \<and> db1 = db"
    then obtain e where e: "r = Inl e" by (cases r) auto
    from Cons.IH[OF rest _ t] Cons.prems(2) f
    show ?thesis by (simp add: res e)
  next
    assume "\<exists>row. r = Inr row \<and> purchases db1 = purchases db @ [row]
          \<and> pur_quantity row = p_quantity (a_payload a) \<and> pur_drop_id row = drop_id (a_drop a)
          \<and> payment_status row = Pending
          \<and> p_quantity (a_payload a) \<le> remaining_of db (drop_id (a_drop a))
          \<and> remaining_of db1 (drop_id (a_drop a))
               = remaining_of db (drop_id (a_drop a)) - p_quantity (a_payload a)"
    then obtain row where row: "r = Inr row" "purchases db1 = purchases db @ [row]"
        "pur_quantity row = p_quantity (a_payload a)" "pur_drop_id row = did"
        "payment_status row = Pending"
        "p_quantity (a_payload a) \<le> remaining_of db did"
        "remaining_of db1 did = remaining_of db did - p_quantity (a_payload a)"
      using a(1) by auto
    have "0 \<le> remaining_of db1 did" using row(6,7) by simp
    from Cons.IH[OF rest this t] row a(2)
    show ?thesis by (simp add: res)
  qed
qed

lemma length_le_sum_list:
  "\<forall>x\<in>set xs. (1::int) \<le> f x \<Longrightarrow> int (length xs) \<le> sum_list (map f xs)"
  by (induction xs) auto

lemma insufficient_inventory:
  assumes "find_drop db (drop_id d) = Some row" "approval_status d = APPROVED"
    "approval_status row = APPROVED" "is_live row now"
    "quantity_remaining row < p_quantity pl"
  shows "savePurchase st now new_id d pl db = (Inl (RpcError InsufficientInventory), db)"
  using assms by (simp add: savePurchase_def purchase_drop_item_def rpcParams_def)

text \<open>
  C1. For a drop with quantity_remaining = N and any set of concurrent reservation
  attempts against it, each for a quantity of at least 1, settling in any order: the
  quantities of the successful attempts sum to at most N, at most N attempts succeed, the
  drop's quantity_remaining afterwards is N minus that sum, the order rows created are
  exactly the rows of the successful attempts (pending, for this drop), and an attempt
  for more than the remaining stock creates no row and changes nothing; it fails with
  InsufficientInventory when the drop is approved and live.
\<close>

theorem inventory_conservation:
  assumes "\<forall>a\<in>set attempts. drop_id (a_drop a) = did \<and> 1 \<le> p_quantity (a_payload a)"
    and "remaining_of db did = N" and "0 \<le> N"
    and "run_attempts server_total attempts db = (results, db')"
  shows "sum_list (map pur_quantity (successful results)) \<le> N
     \<and> int (length (successful results)) \<le> N
     \<and> remaining_of db' did = N - sum_list (map pur_quantity (successful results))
     \<and> purchases db' = purchases db @ successful results
     \<and> (\<forall>row\<in>set (successful results). pur_drop_id row = did \<and> payment_status row = Pending)
     \<and> (\<forall>a db1 r db2.
           savePurchase server_total (a_now a) (a_new_id a) (a_drop a) (a_payload a) db1 = (r, db2)
           \<and> remaining_of db1 (drop_id (a_drop a)) < p_quantity (a_payload a)
           \<longrightarrow> isl r \<and> db2 = db1)
     \<and> (\<forall>a db1 row.
           find_drop db1 (drop_id (a_drop a)) = Some row
           \<and> approval_status (a_drop a) = APPROVED \<and> approval_status row = APPROVED
           \<and> is_live row (a_now a) \<and> quantity_remaining row < p_quantity (a_payload a)
           \<longrightarrow> savePurchase server_total (a_now a) (a_new_id a) (a_drop a) (a_payload a) db1
                 = (Inl (RpcError InsufficientInventory), db1))"
proof -
  let ?sold = "sum_list (map pur_quantity (successful results))"
  from run_attempts_conserves[OF assms(1) _ assms(4)] assms(2,3)
  have c: "remaining_of db' did = N - ?sold" "0 \<le> remaining_of db' did"
    "purchases db' = purchases db @ successful results"
    "\<forall>row\<in>set (successful results).
          pur_drop_id row = did \<and> payment_status row = Pending \<and> 1 \<le> pur_quantity row"
    by simp_all
  have s: "?sold \<le> N" using c(1,2) by simp
  have "int (length (successful results)) \<le> ?sold"
    using c(4) by (intro length_le_sum_list) simp
  then have n: "int (length (successful results)) \<le> N" using s by simp
  have f: "isl r \<and> db2 = db1"
    if "savePurchase server_total (a_now a) (a_new_id a) (a_drop a) (a_payload a) db1 = (r, db2)"
      "remaining_of db1 (drop_id (a_drop a)) < p_quantity (a_payload a)" for a db1 r db2
    using savePurchase_cases[OF that(1)] that(2) by auto
  have g: "savePurchase server_total (a_now a) (a_new_id a) (a_drop a) (a_payload a) db1
                 = (Inl (RpcError InsufficientInventory), db1)"
    if "find_drop db1 (drop_id (a_drop a)) = Some row"
      "approval_status (a_drop a) = APPROVED" "approval_status row = APPROVED"
      "is_live row (a_now a)" "quantity_remaining row < p_quantity (a_payload a)" for a db1 row
    using insufficient_inventory[OF that] .
  show ?thesis
    using s n c(1,3,4) f g by blast
qed

lemma last_unit_example:
  "run_attempts (spec_total 1) last_unit_attempts example_db
     = ([Inr example_purchase, Inl (RpcError InsufficientInventory)], sold_out_db)"
  by (simp add: last_unit_attempts_def example_db_def sold_out_db_def savePurchase_def
      purchase_drop_item_def rpcParams_def find_drop_def is_live_def example_drop_def
      example_payload_def example_purchase_def spec_total_def select_single_def
      finalSelections_def truthy_def savePurchase_total_def modifiersCost_def)

theorem inventory_conservation_witness:
  "list_all (\<lambda>a. drop_id (a_drop a) = ''drop-1'' \<and> 1 \<le> p_quantity (a_payload a))
      last_unit_attempts
   \<and> remaining_of example_db ''drop-1'' = 1 \<and> (0::int) \<le> 1
   \<and> run_attempts (spec_total 1) last_unit_attempts example_db
       = ([Inr example_purchase, Inl (RpcError InsufficientInventory)], sold_out_db)
   \<and> total_paid example_purchase = 11
   \<and> sum_list (map pur_quantity
        (successful [Inr example_purchase, Inl (RpcError InsufficientInventory)])) \<le> 1
   \<and> remaining_of sold_out_db ''drop-1'' = 0
   \<and> purchases sold_out_db = purchases example_db @ [example_purchase]
   \<and> find_drop sold_out_db ''drop-1'' = Some (example_drop\<lparr> quantity_remaining := 0 \<rparr>)
   \<and> is_live (example_drop\<lparr> quantity_remaining := 0 \<rparr>) 5
   \<and> quantity_remaining (example_drop\<lparr> quantity_remaining := 0 \<rparr>) < p_quantity example_payload
   \<and> savePurchase (spec_total 1) 5 ''p2'' example_drop example_payload sold_out_db
       = (Inl (RpcError InsufficientInventory), sold_out_db)"
proof -
  let ?a = "\<lparr> a_now = 5, a_new_id = ''p2'', a_drop = example_drop,
              a_payload = example_payload \<rparr>"
  let ?row = "example_drop\<lparr> quantity_remaining := 0 \<rparr>"
  have h1: "\<forall>a\<in>set last_unit_attempts.
      drop_id (a_drop a) = ''drop-1'' \<and> 1 \<le> p_quantity (a_payload a)"
    by (simp add: last_unit_attempts_def example_drop_def example_payload_def)
  have h2: "remaining_of example_db ''drop-1'' = 1"
    by (simp add: remaining_of_def find_drop_def example_db_def example_drop_def)
  have h3: "(0::int) \<le> 1" by simp
  have q: "pur_quantity example_purchase = 1" "total_paid example_purchase = 11"
    by (simp_all add: example_purchase_def)
  have k: "find_drop sold_out_db (drop_id (a_drop ?a)) = Some ?row"
    "approval_status (a_drop ?a) = APPROVED" "approval_status ?row = APPROVED"
    "is_live ?row (a_now ?a)" "quantity_remaining ?row < p_quantity (a_payload ?a)"
    by (simp_all add: find_drop_def sold_out_db_def example_drop_def is_live_def
        example_payload_def)
  note t = inventory_conservation[OF h1 h2 h3 last_unit_example]
  from t have "\<forall>a db1 row.
           find_drop db1 (drop_id (a_drop a)) = Some row
           \<and> approval_status (a_drop a) = APPROVED \<and> approval_status row = APPROVED
           \<and> is_live row (a_now a) \<and> quantity_remaining row < p_quantity (a_payload a)
           \<longrightarrow> savePurchase (spec_total 1) (a_now a) (a_new_id a) (a_drop a) (a_payload a) db1
                 = (Inl (RpcError InsufficientInventory), db1)"
    by blast
  then have "find_drop sold_out_db (drop_id (a_drop ?a)) = Some ?row
           \<and> approval_status (a_drop ?a) = APPROVED \<and> approval_status ?row = APPROVED
           \<and> is_live ?row (a_now ?a) \<and> quantity_remaining ?row < p_quantity (a_payload ?a)
           \<longrightarrow> savePurchase (spec_total 1) (a_now ?a) (a_new_id ?a) (a_drop ?a) (a_payload ?a)
                 sold_out_db
                 = (Inl (RpcError InsufficientInventory), sold_out_db)"
    by blast
  with k have i: "savePurchase (spec_total 1) 5 ''p2'' example_drop example_payload sold_out_db
       = (Inl (RpcError InsufficientInventory), sold_out_db)"
    by simp
  have k': "find_drop sold_out_db ''drop-1'' = Some ?row" "is_live ?row 5"
    "quantity_remaining ?row < p_quantity example_payload"
    using k by (simp_all add: example_drop_def)
  from t h1 h2 last_unit_example q
  have "sum_list (map pur_quantity
        (successful [Inr example_purchase, Inl (RpcError InsufficientInventory)])) \<le> 1
   \<and> remaining_of sold_out_db ''drop-1'' = 0
   \<and> purchases sold_out_db = purchases example_db @ [example_purchase]"
    by simp blast
  with h1 h2 last_unit_example q i k' show ?thesis by (simp add: list_all_iff)
qed

end
